theory Spec2Isabelle
  imports Complex_Main
begin

section \<open>CMM: parser with a user-extensible precedence table, and tree-walking interpreter\<close>

text \<open>
  A shallow embedding of \<^verbatim>\<open>src/CMMParser.cpp\<close> and \<^verbatim>\<open>src/CMMInterpreter.cpp\<close>.
  Every C++ member function becomes a HOL function of the same name that takes the object's
  state and returns the new one. The lexer, the AST classes and the runtime value class are
  used by the two files but defined elsewhere; what the two files need of them is stated
  where it is introduced.
\<close>

subsection \<open>Tokens and the lexer\<close>

text \<open>
  The parser reads the lexer through \<^verbatim>\<open>getKind()\<close>, \<^verbatim>\<open>Lex()\<close>, \<^verbatim>\<open>getStrVal()\<close>,
  \<^verbatim>\<open>getIntVal()\<close> and so on. A token is its kind together with the payload the lexer
  reports for it; the lexer's state is the list of tokens not yet consumed, whose head is the
  current token. Past the end of the list the current token is \<^verbatim>\<open>Token::Eof\<close>.
\<close>

datatype Token =
    Token_Eof | Token_Error
  | Token_Identifier string | Token_Integer int | Token_Double real
  | Token_String string | Token_Boolean bool | Token_InfixOp string
  | Token_Kw_infix | Token_Kw_void | Token_Kw_int | Token_Kw_bool | Token_Kw_double
  | Token_Kw_string | Token_Kw_if | Token_Kw_else | Token_Kw_while | Token_Kw_for
  | Token_Kw_return | Token_Kw_break | Token_Kw_continue
  | Token_LParen | Token_RParen | Token_LCurly | Token_RCurly | Token_LBrac | Token_RBrac
  | Token_Comma | Token_Semicolon
  | Token_Equal | Token_PipePipe | Token_AmpAmp | Token_Pipe | Token_Caret | Token_Amp
  | Token_EqualEqual | Token_ExclaimEqual
  | Token_Less | Token_LessEqual | Token_Greater | Token_GreaterEqual
  | Token_LessLess | Token_GreaterGreater
  | Token_Plus | Token_Minus | Token_Star | Token_Slash | Token_Percent
  | Token_Tilde | Token_Exclaim

subsection \<open>The abstract syntax tree\<close>

text \<open>\<^verbatim>\<open>cvm::BasicType\<close>, with the \<^verbatim>\<open>VoidType\<close> that \<^verbatim>\<open>parseTypeSpecifier\<close> assigns.\<close>

datatype BasicType = BoolType | IntType | DoubleType | StringType | VoidType

text \<open>
  \<^verbatim>\<open>BinaryOperatorAST::OperatorKind\<close> as the header under \<^verbatim>\<open>include/\<close> lists it, and
  \<^verbatim>\<open>Index\<close>, which both source files use.
\<close>

datatype OperatorKind =
    Add | Minus | Multiply | Division | Modulo
  | LogicalAnd | LogicalOr
  | Less | LessEqual | Equal | Greater | GreaterEqual
  | BitwiseAnd | BitwiseOr | BitwiseXor | LeftShift | RightShift
  | Assign | Index

text \<open>\<^verbatim>\<open>UnaryOperatorAST::OperatorKind\<close> (\<^verbatim>\<open>Plus\<close> and \<^verbatim>\<open>Minus\<close> prefixed: the names are taken).\<close>

datatype UnaryOperatorKind = UnaryPlus | UnaryMinus | LogicalNot | BitwiseNot

text \<open>
  Expression nodes, one constructor per class the parser instantiates. Each node owns its
  children. \<^verbatim>\<open>FunctionCallAST\<close> carries the callee, the arguments and the \<^verbatim>\<open>Dynamic\<close>
  flag; \<^verbatim>\<open>InfixOpExprAST\<close> the operator symbol and both operands.
\<close>

datatype ExpressionAST =
    IntAST int
  | DoubleAST real
  | BoolAST bool
  | StringAST string
  | IdentifierAST string
  | FunctionCallAST string "ExpressionAST list" bool
  | BinaryOperatorAST OperatorKind ExpressionAST ExpressionAST
  | UnaryOperatorAST UnaryOperatorKind ExpressionAST
  | InfixOpExprAST string ExpressionAST ExpressionAST

text \<open>
  \<^verbatim>\<open>ExpressionAST::ExpressionKind\<close>, the tag that \<^verbatim>\<open>getKind()\<close> reads. The header under
  \<^verbatim>\<open>include/\<close> lists the first eight kinds, one per class, and each class hands its own kind
  to the base constructor.

  Modelled from the spec: the class of the infix-operator application and its kind are declared
  in a header that is not among the sources. The spec lists the ``user-defined infix-operator
  application'' as an expression variant of its own, beside the binary operator; its kind is
  therefore a ninth one, \<open>InfixOpExpression\<close>.
\<close>

datatype ExpressionKind =
    IntExpression | DoubleExpression | BoolExpression | StringExpression
  | IdentifierExpression | FunctionCallExpression | BinaryOperatorExpression
  | UnaryOperatorExpression | InfixOpExpression

fun Expr_getKind :: "ExpressionAST \<Rightarrow> ExpressionKind" where
  "Expr_getKind (IntAST Value) = IntExpression"
| "Expr_getKind (DoubleAST Value) = DoubleExpression"
| "Expr_getKind (BoolAST Value) = BoolExpression"
| "Expr_getKind (StringAST Value) = StringExpression"
| "Expr_getKind (IdentifierAST Name) = IdentifierExpression"
| "Expr_getKind (FunctionCallAST Callee Arguments Dynamic) = FunctionCallExpression"
| "Expr_getKind (BinaryOperatorAST OpKind LHS RHS) = BinaryOperatorExpression"
| "Expr_getKind (UnaryOperatorAST OpKind Operand) = UnaryOperatorExpression"
| "Expr_getKind (InfixOpExprAST Symbol LHS RHS) = InfixOpExpression"

text \<open>
  A declarator of a declaration list: name, declared type, optional initializer, and the
  array bounds. \<^verbatim>\<open>isArray()\<close> holds when the declarator has a bound.
\<close>

datatype DeclarationAST =
  DeclarationAST (Decl_getName: string) (Decl_getType: BasicType)
    (Decl_getInitializer: "ExpressionAST option") (Decl_getCountExprList: "ExpressionAST list")

definition Decl_isArray :: "DeclarationAST \<Rightarrow> bool" where
  "Decl_isArray Decl = (Decl_getCountExprList Decl \<noteq> [])"

text \<open>
  Statement nodes. A \<^verbatim>\<open>std::unique_ptr<StatementAST>\<close> may be null
  (\<^verbatim>\<open>parseEmptyStatement\<close> stores \<^verbatim>\<open>nullptr\<close>), so a statement pointer is a
  \<open>StatementAST option\<close> with \<open>None\<close> for the null pointer; likewise for the optional
  expressions of \<^verbatim>\<open>for\<close> and \<^verbatim>\<open>return\<close>.
\<close>

datatype StatementAST =
    ExprStatementAST ExpressionAST
  | BlockAST "StatementAST option list"
  | IfStatementAST ExpressionAST "StatementAST option" "StatementAST option"
  | WhileStatementAST ExpressionAST "StatementAST option"
  | ForStatementAST "ExpressionAST option" "ExpressionAST option" "ExpressionAST option"
      "StatementAST option"
  | ReturnStatementAST "ExpressionAST option"
  | BreakStatementAST
  | ContinueStatementAST
  | DeclarationStatement DeclarationAST
  | DeclarationListAST BasicType "DeclarationAST list"

datatype Parameter = Parameter (Para_getName: string) (Para_getType: BasicType)

datatype FunctionDefinitionAST =
  FunctionDefinitionAST (Func_getName: string) (Func_getType: BasicType)
    (Func_getParameterList: "Parameter list") (Func_getStatement: "StatementAST option")

datatype InfixOpDefinitionAST =
  InfixOpDefinitionAST (Infix_getSymbol: string) (Infix_getLHS: string) (Infix_getRHS: string)
    (Infix_getStatement: "StatementAST option")

text \<open>
  The node factories of the AST library are called by the parser but their bodies are not
  among the sources, and neither is \<^verbatim>\<open>InfixOpDefinitionAST::DefaultPrecedence\<close>. The parser
  is therefore parametrised by them: every statement about the parser below holds for whatever
  these functions compute. \<^verbatim>\<open>BinaryOperatorAST::create\<close> is the factory of the assignment node,
  and the parser hands it the left side of \<^verbatim>\<open>=\<close> as it is; whether the factory accepts every
  left side cannot be read off the sources, so its result is optional: \<open>None\<close> when it does not
  hand back a node but stops the process.
\<close>

record ASTLib =
  BinaryOperatorAST_create ::
    "Token \<Rightarrow> ExpressionAST \<Rightarrow> ExpressionAST \<Rightarrow> ExpressionAST option"
  BinaryOperatorAST_tryFoldBinOp :: "Token \<Rightarrow> ExpressionAST \<Rightarrow> ExpressionAST \<Rightarrow> ExpressionAST"
  UnaryOperatorAST_tryFoldUnaryOp :: "UnaryOperatorKind \<Rightarrow> ExpressionAST \<Rightarrow> ExpressionAST"
  IfStatementAST_create ::
    "ExpressionAST \<Rightarrow> StatementAST option \<Rightarrow> StatementAST option \<Rightarrow> StatementAST option"
  WhileStatementAST_create :: "ExpressionAST \<Rightarrow> StatementAST option \<Rightarrow> StatementAST option"
  ForStatementAST_create ::
    "ExpressionAST option \<Rightarrow> ExpressionAST option \<Rightarrow> ExpressionAST option \<Rightarrow>
     StatementAST option \<Rightarrow> StatementAST option"
  DefaultPrecedence :: int

subsection \<open>Parser state, diagnostics and results\<close>

text \<open>\<^verbatim>\<open>SourceManager::Error\<close> and \<^verbatim>\<open>Warning\<close> append to the error list (locations left out).\<close>

datatype ErrorKind = ErrorKind_Error | ErrorKind_Warning

record CMMParser =
  Lexer :: "Token list"
  ErrorList :: "(ErrorKind \<times> string) list"
  BinOpPrecedence :: "(string \<times> int) list"
  InfixOpDefinition :: "(string \<times> InfixOpDefinitionAST) list"
  FunctionDefinition :: "(string \<times> FunctionDefinitionAST) list"
  TopLevelBlock :: "StatementAST option list"

text \<open>
  A parse function returns \<^verbatim>\<open>false\<close> with its result stored (\<open>Ok\<close>), or \<^verbatim>\<open>true\<close> after
  reporting an error (\<open>Failed\<close>); an \<^verbatim>\<open>assert\<close> that does not hold aborts the process
  (\<open>AssertFailed\<close>), and so does a node factory that hands back no node. The functions recurse on a bound on the depth of calls and the number of
  loop iterations; \<open>OutOfFuel\<close> says the bound was too small.
\<close>

datatype 'a ParseResult = Ok CMMParser 'a | Failed CMMParser | AssertFailed | OutOfFuel

fun thenP :: "'a ParseResult \<Rightarrow> (CMMParser \<Rightarrow> 'a \<Rightarrow> 'b ParseResult) \<Rightarrow> 'b ParseResult" where
  "thenP (Ok p x) f = f p x"
| "thenP (Failed p) f = Failed p"
| "thenP AssertFailed f = AssertFailed"
| "thenP OutOfFuel f = OutOfFuel"

definition getTok :: "CMMParser \<Rightarrow> Token" where
  "getTok p = (case Lexer p of [] \<Rightarrow> Token_Eof | t # ts \<Rightarrow> t)"

definition Lex :: "CMMParser \<Rightarrow> CMMParser" where
  "Lex p = p\<lparr>Lexer := tl (Lexer p)\<rparr>"

definition getStrVal :: "CMMParser \<Rightarrow> string" where
  "getStrVal p = (case getTok p of
      Token_Identifier s \<Rightarrow> s | Token_InfixOp s \<Rightarrow> s | Token_String s \<Rightarrow> s | _ \<Rightarrow> [])"

definition Warning :: "string \<Rightarrow> CMMParser \<Rightarrow> CMMParser" where
  "Warning Msg p = p\<lparr>ErrorList := ErrorList p @ [(ErrorKind_Warning, Msg)]\<rparr>"

definition Error :: "string \<Rightarrow> CMMParser \<Rightarrow> 'a ParseResult" where
  "Error Msg p = Failed (p\<lparr>ErrorList := ErrorList p @ [(ErrorKind_Error, Msg)]\<rparr>)"

text \<open>\<^verbatim>\<open>static_cast<int8_t>\<close>: the value modulo 256, read as a signed byte.\<close>

definition int8 :: "int \<Rightarrow> int" where
  "int8 x = (x + 128) mod 256 - 128"

text \<open>
  A \<^verbatim>\<open>std::map\<close> is an association list with one entry per key, read with \<open>map_of\<close>.
  \<^verbatim>\<open>std::map::emplace\<close> inserts only when the key is absent, and says whether it did.
\<close>

definition emplace :: "('k \<times> 'v) list \<Rightarrow> 'k \<Rightarrow> 'v \<Rightarrow> ('k \<times> 'v) list \<times> bool" where
  "emplace m k v = (case map_of m k of None \<Rightarrow> (m @ [(k, v)], True) | Some old \<Rightarrow> (m, False))"

subsection \<open>Parsing expressions\<close>

definition getBinOpPrecedence :: "CMMParser \<Rightarrow> int" where
  "getBinOpPrecedence p = (case getTok p of
      Token_Equal \<Rightarrow> 1
    | Token_PipePipe \<Rightarrow> 2
    | Token_AmpAmp \<Rightarrow> 3
    | Token_Pipe \<Rightarrow> 4
    | Token_Caret \<Rightarrow> 5
    | Token_Amp \<Rightarrow> 6
    | Token_EqualEqual \<Rightarrow> 7
    | Token_ExclaimEqual \<Rightarrow> 7
    | Token_Less \<Rightarrow> 8
    | Token_LessEqual \<Rightarrow> 8
    | Token_Greater \<Rightarrow> 8
    | Token_GreaterEqual \<Rightarrow> 8
    | Token_LessLess \<Rightarrow> 9
    | Token_GreaterGreater \<Rightarrow> 9
    | Token_Plus \<Rightarrow> 10
    | Token_Minus \<Rightarrow> 10
    | Token_Star \<Rightarrow> 11
    | Token_Slash \<Rightarrow> 11
    | Token_Percent \<Rightarrow> 11
    | Token_InfixOp s \<Rightarrow> (case map_of (BinOpPrecedence p) s of Some prec \<Rightarrow> prec | None \<Rightarrow> - 1)
    | _ \<Rightarrow> - 1)"

definition parseConstantExpression :: "CMMParser \<Rightarrow> ExpressionAST ParseResult" where
  "parseConstantExpression p = (case getTok p of
      Token_Integer i \<Rightarrow> Ok (Lex p) (IntAST i)
    | Token_Double d \<Rightarrow> Ok (Lex p) (DoubleAST d)
    | Token_Boolean b \<Rightarrow> Ok (Lex p) (BoolAST b)
    | Token_String s \<Rightarrow> Ok (Lex p) (StringAST s)
    | _ \<Rightarrow> Error ''unknown token in literal constant expression'' p)"

text \<open>Kind tests on the current token: \<^verbatim>\<open>Lexer.is(Token::Identifier)\<close> and the like.\<close>

definition isIdentifier :: "Token \<Rightarrow> bool" where
  "isIdentifier t = (case t of Token_Identifier s \<Rightarrow> True | _ \<Rightarrow> False)"

definition isInfixOp :: "Token \<Rightarrow> bool" where
  "isInfixOp t = (case t of Token_InfixOp s \<Rightarrow> True | _ \<Rightarrow> False)"

definition isInteger :: "Token \<Rightarrow> bool" where
  "isInteger t = (case t of Token_Integer i \<Rightarrow> True | _ \<Rightarrow> False)"

definition isConstant :: "Token \<Rightarrow> bool" where
  "isConstant t = (case t of Token_Integer i \<Rightarrow> True | Token_Double d \<Rightarrow> True
     | Token_String s \<Rightarrow> True | Token_Boolean b \<Rightarrow> True | _ \<Rightarrow> False)"

definition getIntVal :: "CMMParser \<Rightarrow> int" where
  "getIntVal p = (case getTok p of Token_Integer i \<Rightarrow> i | _ \<Rightarrow> 0)"

text \<open>The last step of the loop of \<^verbatim>\<open>parseBinOpRHS\<close>: merge LHS and RHS according to operator.\<close>

definition mergeBinOp ::
  "ASTLib \<Rightarrow> Token \<Rightarrow> string \<Rightarrow> ExpressionAST \<Rightarrow> ExpressionAST \<Rightarrow> ExpressionAST" where
  "mergeBinOp A TokenKind Symbol Res RHS =
     (if isInfixOp TokenKind then InfixOpExprAST Symbol Res RHS
      else BinaryOperatorAST_tryFoldBinOp A TokenKind Res RHS)"

text \<open>
  The mutually recursive expression parsers. The \<^verbatim>\<open>for (;;)\<close> of \<^verbatim>\<open>parseBinOpRHS\<close>, the
  \<^verbatim>\<open>while\<close> over index brackets in \<^verbatim>\<open>parsePrimaryExpression\<close> and the \<^verbatim>\<open>for (;;)\<close> of
  \<^verbatim>\<open>parseArgumentList\<close> are the functions with suffix \<open>_loop\<close>; the four unary cases of
  \<^verbatim>\<open>parsePrimaryExpression\<close> share \<open>parseUnary\<close>, the code after its \<^verbatim>\<open>switch\<close>.
\<close>

function (sequential) parseExpression :: "nat \<Rightarrow> ASTLib \<Rightarrow> CMMParser \<Rightarrow> ExpressionAST ParseResult"
  and parseParenExpression :: "nat \<Rightarrow> ASTLib \<Rightarrow> CMMParser \<Rightarrow> ExpressionAST ParseResult"
  and parsePrimaryExpression :: "nat \<Rightarrow> ASTLib \<Rightarrow> CMMParser \<Rightarrow> ExpressionAST ParseResult"
  and parseUnary ::
    "nat \<Rightarrow> ASTLib \<Rightarrow> UnaryOperatorKind \<Rightarrow> CMMParser \<Rightarrow> ExpressionAST ParseResult"
  and parsePrimaryExpression_loop ::
    "nat \<Rightarrow> ASTLib \<Rightarrow> ExpressionAST \<Rightarrow> CMMParser \<Rightarrow> ExpressionAST ParseResult"
  and parseBinOpRHS ::
    "nat \<Rightarrow> ASTLib \<Rightarrow> int \<Rightarrow> ExpressionAST \<Rightarrow> CMMParser \<Rightarrow> ExpressionAST ParseResult"
  and parseBinOpRHS_loop ::
    "nat \<Rightarrow> ASTLib \<Rightarrow> int \<Rightarrow> ExpressionAST \<Rightarrow> CMMParser \<Rightarrow> ExpressionAST ParseResult"
  and parseIdentifierExpression :: "nat \<Rightarrow> ASTLib \<Rightarrow> CMMParser \<Rightarrow> ExpressionAST ParseResult"
  and parseOptionalArgList :: "nat \<Rightarrow> ASTLib \<Rightarrow> CMMParser \<Rightarrow> ExpressionAST list ParseResult"
  and parseArgumentList_loop ::
    "nat \<Rightarrow> ASTLib \<Rightarrow> ExpressionAST list \<Rightarrow> CMMParser \<Rightarrow> ExpressionAST list ParseResult"
where
  "parseExpression 0 A p = OutOfFuel"
| "parseExpression (Suc n) A p =
     thenP (parsePrimaryExpression n A p) (\<lambda>p1 Res. parseBinOpRHS n A 1 Res p1)"

| "parseParenExpression 0 A p = OutOfFuel"
| "parseParenExpression (Suc n) A p =
     thenP (parseExpression n A (Lex p)) (\<lambda>p1 Res.
       if getTok p1 \<noteq> Token_RParen
       then Error ''expected ')' in parentheses expression'' p1
       else Ok (Lex p1) Res)"

| "parsePrimaryExpression 0 A p = OutOfFuel"
| "parsePrimaryExpression (Suc n) A p =
     (if getTok p = Token_LParen then parseParenExpression n A p
      else if isIdentifier (getTok p) then
        thenP (parseIdentifierExpression n A p) (\<lambda>p1 Res.
          parsePrimaryExpression_loop n A Res p1)
      else if isConstant (getTok p) then parseConstantExpression p
      else if getTok p = Token_Plus then parseUnary n A UnaryPlus p
      else if getTok p = Token_Minus then parseUnary n A UnaryMinus p
      else if getTok p = Token_Tilde then parseUnary n A BitwiseNot p
      else if getTok p = Token_Exclaim then parseUnary n A LogicalNot p
      else Error ''unexpected token in expression'' p)"

| "parseUnary 0 A UnaryOpKind p = OutOfFuel"
| "parseUnary (Suc n) A UnaryOpKind p =
     thenP (parsePrimaryExpression n A (Lex p)) (\<lambda>p1 Operand.
       Ok p1 (UnaryOperatorAST_tryFoldUnaryOp A UnaryOpKind Operand))"

| "parsePrimaryExpression_loop 0 A Res p = OutOfFuel"
| "parsePrimaryExpression_loop (Suc n) A Res p =
     (if getTok p = Token_LBrac
      then thenP (parseExpression n A (Lex p)) (\<lambda>p1 IndexExpr.
             if getTok p1 \<noteq> Token_RBrac
             then Error ''RBrac ']' expected in index expression'' p1
             else parsePrimaryExpression_loop n A
                    (BinaryOperatorAST Index Res IndexExpr) (Lex p1))
      else Ok p Res)"

| "parseBinOpRHS 0 A ExprPrec Res p = OutOfFuel"
| "parseBinOpRHS (Suc n) A ExprPrec Res p =
     (if getTok p = Token_Equal
      then thenP (parseExpression n A (Lex p)) (\<lambda>p1 RHS.
             case BinaryOperatorAST_create A Token_Equal Res RHS of
               Some Assignment \<Rightarrow> Ok p1 Assignment
             | None \<Rightarrow> AssertFailed)
      else parseBinOpRHS_loop n A ExprPrec Res p)"

| "parseBinOpRHS_loop 0 A ExprPrec Res p = OutOfFuel"
| "parseBinOpRHS_loop (Suc n) A ExprPrec Res p =
     (if getBinOpPrecedence p < ExprPrec then Ok p Res
      else thenP (parsePrimaryExpression n A (Lex p)) (\<lambda>p1 RHS.
             thenP (if getBinOpPrecedence p < getBinOpPrecedence p1
                    then parseBinOpRHS n A (int8 (getBinOpPrecedence p + 1)) RHS p1
                    else Ok p1 RHS) (\<lambda>p2 RHS.
               parseBinOpRHS_loop n A ExprPrec
                 (mergeBinOp A (getTok p) (getStrVal p) Res RHS) p2)))"

| "parseIdentifierExpression 0 A p = OutOfFuel"
| "parseIdentifierExpression (Suc n) A p =
     (if \<not> isIdentifier (getTok p) then AssertFailed
      else if getTok (Lex p) = Token_Exclaim
      then (if getTok (Lex (Lex p)) = Token_LParen
            then thenP (parseOptionalArgList n A (Lex (Lex (Lex p)))) (\<lambda>p2 Args.
                   if getTok p2 \<noteq> Token_RParen
                   then Error ''expect ')' in function call'' p2
                   else Ok (Lex p2) (FunctionCallAST (getStrVal p) Args True))
            else Ok (Warning ''trailing `!' is ignored in identifier'' (Lex (Lex p)))
                   (IdentifierAST (getStrVal p)))
      else (if getTok (Lex p) = Token_LParen
            then thenP (parseOptionalArgList n A (Lex (Lex p))) (\<lambda>p2 Args.
                   if getTok p2 \<noteq> Token_RParen
                   then Error ''expect ')' in function call'' p2
                   else Ok (Lex p2) (FunctionCallAST (getStrVal p) Args False))
            else Ok (Lex p) (IdentifierAST (getStrVal p))))"

| "parseOptionalArgList 0 A p = OutOfFuel"
| "parseOptionalArgList (Suc n) A p =
     (if getTok p = Token_RParen then Ok p [] else parseArgumentList_loop n A [] p)"

| "parseArgumentList_loop 0 A ArgList p = OutOfFuel"
| "parseArgumentList_loop (Suc n) A ArgList p =
     thenP (parseExpression n A p) (\<lambda>p1 Expression.
       if getTok p1 \<noteq> Token_Comma
       then Ok p1 (ArgList @ [Expression])
       else parseArgumentList_loop n A (ArgList @ [Expression]) (Lex p1))"

  by pat_completeness auto
termination
  by (relation "measure (case_sum (case_sum (case_sum fst fst) (case_sum fst (case_sum fst fst)))
        (case_sum (case_sum fst fst) (case_sum fst (case_sum fst fst))))") auto

subsection \<open>Parsing statements\<close>

definition parseTypeSpecifier :: "CMMParser \<Rightarrow> BasicType ParseResult" where
  "parseTypeSpecifier p =
     (if getTok p = Token_Kw_bool then Ok (Lex p) BoolType
      else if getTok p = Token_Kw_int then Ok (Lex p) IntType
      else if getTok p = Token_Kw_double then Ok (Lex p) DoubleType
      else if getTok p = Token_Kw_void then Ok (Lex p) VoidType
      else if getTok p = Token_Kw_string then Ok (Lex p) StringType
      else Error ''unknown type specifier'' p)"

definition parseEmptyStatement :: "CMMParser \<Rightarrow> StatementAST option ParseResult" where
  "parseEmptyStatement p = Ok (Lex (Warning ''empty statement'' p)) None"

definition parseExprStatement ::
  "nat \<Rightarrow> ASTLib \<Rightarrow> CMMParser \<Rightarrow> StatementAST option ParseResult" where
  "parseExprStatement n A p =
     thenP (parseExpression n A p) (\<lambda>p1 Expression.
       if getTok p1 \<noteq> Token_Semicolon
       then Error ''missing semicolon in statement'' p1
       else Ok (Lex p1) (Some (ExprStatementAST Expression)))"

text \<open>
  \<^verbatim>\<open>Lexer.isNot(T) && parseExpression(E)\<close>: the expression is parsed unless the current token
  is \<open>T\<close>, and is left null otherwise.
\<close>

definition parseExpressionUnless ::
  "nat \<Rightarrow> ASTLib \<Rightarrow> Token \<Rightarrow> CMMParser \<Rightarrow> ExpressionAST option ParseResult" where
  "parseExpressionUnless n A T p =
     (if getTok p \<noteq> T
      then thenP (parseExpression n A p) (\<lambda>p1 E. Ok p1 (Some E))
      else Ok p None)"

definition parseReturnStatement ::
  "nat \<Rightarrow> ASTLib \<Rightarrow> CMMParser \<Rightarrow> StatementAST option ParseResult" where
  "parseReturnStatement n A p =
     (if getTok p \<noteq> Token_Kw_return then AssertFailed
      else thenP (parseExpressionUnless n A Token_Semicolon (Lex p)) (\<lambda>p1 ReturnValue.
             if getTok p1 \<noteq> Token_Semicolon
             then Error ''unexpected token after return value'' p1
             else Ok (Lex p1) (Some (ReturnStatementAST ReturnValue))))"

definition parseBreakStatement :: "CMMParser \<Rightarrow> StatementAST option ParseResult" where
  "parseBreakStatement p =
     (if getTok p \<noteq> Token_Kw_break then AssertFailed
      else if getTok (Lex p) \<noteq> Token_Semicolon
      then Error ''unexpected token after break'' (Lex p)
      else Ok (Lex (Lex p)) (Some BreakStatementAST))"

definition parseContinueStatement :: "CMMParser \<Rightarrow> StatementAST option ParseResult" where
  "parseContinueStatement p =
     (if getTok p \<noteq> Token_Kw_continue then AssertFailed
      else if getTok (Lex p) \<noteq> Token_Semicolon
      then Error ''unexpected token after continue'' (Lex p)
      else Ok (Lex (Lex p)) (Some ContinueStatementAST))"

text \<open>The \<^verbatim>\<open>while\<close> over array bounds in \<^verbatim>\<open>parseDeclarationStatement\<close>.\<close>

fun parseCountExprList_loop ::
  "nat \<Rightarrow> ASTLib \<Rightarrow> ExpressionAST list \<Rightarrow> CMMParser \<Rightarrow> ExpressionAST list ParseResult" where
  "parseCountExprList_loop 0 A CountExprList p = OutOfFuel"
| "parseCountExprList_loop (Suc n) A CountExprList p =
     (if getTok p = Token_LBrac
      then thenP (parseExpression n A (Lex p)) (\<lambda>p1 CountExpr.
             if getTok p1 \<noteq> Token_RBrac
             then Error ''RBrac ']' expected in array declaration'' p1
             else parseCountExprList_loop n A (CountExprList @ [CountExpr]) (Lex p1))
      else Ok p CountExprList)"

text \<open>
  The \<^verbatim>\<open>for (;;)\<close> over declarators. \<^verbatim>\<open>addDeclaration\<close> appends a declarator of the
  list's type.
\<close>

fun parseDeclarationStatement_loop ::
  "nat \<Rightarrow> ASTLib \<Rightarrow> BasicType \<Rightarrow> DeclarationAST list \<Rightarrow> CMMParser \<Rightarrow>
   DeclarationAST list ParseResult" where
  "parseDeclarationStatement_loop 0 A Type DeclList p = OutOfFuel"
| "parseDeclarationStatement_loop (Suc n) A Type DeclList p =
     (if \<not> isIdentifier (getTok p) then Error ''identifier expected'' p
      else thenP (parseCountExprList_loop n A [] (Lex p)) (\<lambda>p1 CountExprList.
        thenP (if getTok p1 = Token_Equal
               then thenP (parseExpression n A (Lex p1)) (\<lambda>p2 E. Ok p2 (Some E))
               else Ok p1 None) (\<lambda>p2 InitExpr.
          if getTok p2 \<noteq> Token_Comma
          then Ok p2 (DeclList @ [DeclarationAST (getStrVal p) Type InitExpr CountExprList])
          else parseDeclarationStatement_loop n A Type
                 (DeclList @ [DeclarationAST (getStrVal p) Type InitExpr CountExprList])
                 (Lex p2))))"

definition parseDeclarationStatement_aux ::
  "nat \<Rightarrow> ASTLib \<Rightarrow> BasicType \<Rightarrow> CMMParser \<Rightarrow> StatementAST option ParseResult" where
  "parseDeclarationStatement_aux n A Type p =
     thenP (parseDeclarationStatement_loop n A Type [] p) (\<lambda>p1 DeclList.
       if getTok p1 \<noteq> Token_Semicolon
       then Error ''expected semicolon in the declaration'' p1
       else Ok (Lex p1) (Some (DeclarationListAST Type DeclList)))"

definition parseDeclarationStatement ::
  "nat \<Rightarrow> ASTLib \<Rightarrow> CMMParser \<Rightarrow> StatementAST option ParseResult" where
  "parseDeclarationStatement n A p =
     thenP (parseTypeSpecifier p) (\<lambda>p1 Type. parseDeclarationStatement_aux n A Type p1)"

text \<open>
  The statement parsers. \<^verbatim>\<open>parseBlock\<close> collects the statements of the block it opened;
  the block is the current one again when its \<^verbatim>\<open>}\<close> is reached, since every nested call
  restores \<^verbatim>\<open>CurrentBlock\<close> before it returns \<^verbatim>\<open>false\<close>.
\<close>

function (sequential) parseStatement ::
    "nat \<Rightarrow> ASTLib \<Rightarrow> CMMParser \<Rightarrow> StatementAST option ParseResult"
  and parseBlock :: "nat \<Rightarrow> ASTLib \<Rightarrow> CMMParser \<Rightarrow> StatementAST option ParseResult"
  and parseBlock_loop ::
    "nat \<Rightarrow> ASTLib \<Rightarrow> StatementAST option list \<Rightarrow> CMMParser \<Rightarrow>
     StatementAST option list ParseResult"
  and parseIfStatement :: "nat \<Rightarrow> ASTLib \<Rightarrow> CMMParser \<Rightarrow> StatementAST option ParseResult"
  and parseForStatement :: "nat \<Rightarrow> ASTLib \<Rightarrow> CMMParser \<Rightarrow> StatementAST option ParseResult"
  and parseWhileStatement :: "nat \<Rightarrow> ASTLib \<Rightarrow> CMMParser \<Rightarrow> StatementAST option ParseResult"
where
  "parseStatement 0 A p = OutOfFuel"
| "parseStatement (Suc n) A p =
     (if getTok p = Token_LCurly then parseBlock n A p
      else if getTok p = Token_Kw_if then parseIfStatement n A p
      else if getTok p = Token_Kw_while then parseWhileStatement n A p
      else if getTok p = Token_Kw_for then parseForStatement n A p
      else if getTok p = Token_Kw_return then parseReturnStatement n A p
      else if getTok p = Token_Kw_break then parseBreakStatement p
      else if getTok p = Token_Kw_continue then parseContinueStatement p
      else if getTok p = Token_Semicolon then parseEmptyStatement p
      else if getTok p = Token_Kw_bool \<or> getTok p = Token_Kw_int \<or>
              getTok p = Token_Kw_double \<or> getTok p = Token_Kw_string
      then parseDeclarationStatement n A p
      else if getTok p = Token_Kw_void
      then Error ''`void' only appears before function definition'' p
      else if getTok p = Token_LParen \<or> isIdentifier (getTok p) \<or> isConstant (getTok p) \<or>
              getTok p = Token_Plus \<or> getTok p = Token_Minus \<or>
              getTok p = Token_Tilde \<or> getTok p = Token_Exclaim
      then parseExprStatement n A p
      else Error ''unexpected token in statement'' p)"

| "parseBlock 0 A p = OutOfFuel"
| "parseBlock (Suc n) A p =
     (if getTok p \<noteq> Token_LCurly then AssertFailed
      else thenP (parseBlock_loop n A [] (Lex p)) (\<lambda>p1 StatementList.
             Ok (Lex p1) (Some (BlockAST StatementList))))"

| "parseBlock_loop 0 A StatementList p = OutOfFuel"
| "parseBlock_loop (Suc n) A StatementList p =
     (if getTok p \<noteq> Token_RCurly
      then thenP (parseStatement n A p) (\<lambda>p1 Statement.
             parseBlock_loop n A (StatementList @ [Statement]) p1)
      else Ok p StatementList)"

| "parseIfStatement 0 A p = OutOfFuel"
| "parseIfStatement (Suc n) A p =
     (if getTok p \<noteq> Token_Kw_if then AssertFailed
      else if getTok (Lex p) \<noteq> Token_LParen
      then Error ''left parenthesis expected'' (Lex p)
      else thenP (parseExpression n A (Lex (Lex p))) (\<lambda>p1 Condition.
        if getTok p1 \<noteq> Token_RParen
        then Error ''right parenthesis expected'' p1
        else thenP (parseStatement n A (Lex p1)) (\<lambda>p2 StatementThen.
          if getTok p2 = Token_Kw_else
          then thenP (parseStatement n A (Lex p2)) (\<lambda>p3 StatementElse.
                 Ok p3 (IfStatementAST_create A Condition StatementThen StatementElse))
          else Ok p2 (IfStatementAST_create A Condition StatementThen None))))"

| "parseForStatement 0 A p = OutOfFuel"
| "parseForStatement (Suc n) A p =
     (if getTok p \<noteq> Token_Kw_for then AssertFailed
      else if getTok (Lex p) \<noteq> Token_LParen
      then Error ''left parenthesis expected in for loop'' (Lex p)
      else thenP (parseExpressionUnless n A Token_Semicolon (Lex (Lex p))) (\<lambda>p1 Init.
        if getTok p1 \<noteq> Token_Semicolon
        then Error ''missing semicolon for initial expression in for loop'' p1
        else thenP (parseExpressionUnless n A Token_Semicolon (Lex p1)) (\<lambda>p2 Condition.
          if getTok p2 \<noteq> Token_Semicolon
          then Error ''missing semicolon for conditional expression in for loop'' p2
          else thenP (parseExpressionUnless n A Token_RParen (Lex p2)) (\<lambda>p3 Post.
            if getTok p3 \<noteq> Token_RParen
            then Error ''missing semicolon for post expression in for loop'' p3
            else thenP (parseStatement n A (Lex p3)) (\<lambda>p4 Statement.
                   Ok p4 (ForStatementAST_create A Init Condition Post Statement))))))"

| "parseWhileStatement 0 A p = OutOfFuel"
| "parseWhileStatement (Suc n) A p =
     (if getTok p \<noteq> Token_Kw_while then AssertFailed
      else if getTok (Lex p) \<noteq> Token_LParen
      then Error ''left parenthesis expected in while loop'' (Lex p)
      else thenP (parseExpression n A (Lex (Lex p))) (\<lambda>p1 Condition.
        if getTok p1 \<noteq> Token_RParen
        then Error ''right parenthesis expected in while loop'' p1
        else thenP (parseStatement n A (Lex p1)) (\<lambda>p2 Statement.
               Ok p2 (WhileStatementAST_create A Condition Statement))))"
  by pat_completeness auto
termination
  by (relation "measure (case_sum (case_sum fst (case_sum fst fst))
        (case_sum fst (case_sum fst fst)))") auto

subsection \<open>Parsing top-level entities\<close>

text \<open>
  \<^verbatim>\<open>parseParameterList\<close> fills the caller's list; its only caller ignores whether it
  failed, so the result carries the list in either case (\<open>None\<close>: out of fuel).
\<close>

fun parseParameterList_loop ::
  "nat \<Rightarrow> Parameter list \<Rightarrow> CMMParser \<Rightarrow> (CMMParser \<times> bool \<times> Parameter list) option" where
  "parseParameterList_loop 0 ParameterList p = None"
| "parseParameterList_loop (Suc n) ParameterList p =
     (case parseTypeSpecifier p of
        Ok p1 Type \<Rightarrow>
          (let Identifier = (if isIdentifier (getTok p1) then getStrVal p1 else []);
               p2 = (if isIdentifier (getTok p1) then Lex p1
                     else Warning ''missing identifier after type'' p1)
           in if getTok p2 \<noteq> Token_Comma
              then Some (p2, False, ParameterList @ [Parameter Identifier Type])
              else parseParameterList_loop n (ParameterList @ [Parameter Identifier Type])
                     (Lex p2))
      | Failed p1 \<Rightarrow> Some (p1, True, ParameterList)
      | AssertFailed \<Rightarrow> None
      | OutOfFuel \<Rightarrow> None)"

definition parseParameterList ::
  "nat \<Rightarrow> Parameter list \<Rightarrow> CMMParser \<Rightarrow> (CMMParser \<times> bool \<times> Parameter list) option" where
  "parseParameterList n ParameterList p =
     (if getTok p = Token_Kw_void then Some (Lex p, False, ParameterList)
      else parseParameterList_loop n ParameterList p)"

text \<open>\<^verbatim>\<open>parseFunctionDefinition(RetType, Name)\<close>: the definition from its \<^verbatim>\<open>(\<close> on.\<close>

definition parseFunctionDefinition_body ::
  "nat \<Rightarrow> ASTLib \<Rightarrow> BasicType \<Rightarrow> string \<Rightarrow> CMMParser \<Rightarrow> unit ParseResult" where
  "parseFunctionDefinition_body n A RetType Name p =
     (if getTok p \<noteq> Token_LParen then AssertFailed
      else case (if getTok (Lex p) \<noteq> Token_RParen then parseParameterList n [] (Lex p)
                 else Some (Lex p, False, [])) of
        None \<Rightarrow> OutOfFuel
      | Some (p1, Err, ParameterList) \<Rightarrow>
          if getTok p1 \<noteq> Token_RParen then Error ''right parenthesis expected'' p1
          else thenP (parseStatement n A (Lex p1)) (\<lambda>p2 Statement.
            let FuncDef = FunctionDefinitionAST Name RetType ParameterList Statement;
                r = emplace (FunctionDefinition p2) Name FuncDef;
                p3 = p2\<lparr>FunctionDefinition := fst r\<rparr>
            in Ok (if \<not> snd r
                   then Warning (''function `'' @ Name @ ''' overrides another one'') p3
                   else p3) ()))"

definition parseFunctionDefinition :: "nat \<Rightarrow> ASTLib \<Rightarrow> CMMParser \<Rightarrow> unit ParseResult" where
  "parseFunctionDefinition n A p =
     thenP (parseTypeSpecifier p) (\<lambda>p1 RetType.
       if \<not> isIdentifier (getTok p1)
       then Error ''expect identifier in function definition'' p1
       else parseFunctionDefinition_body n A RetType (getStrVal p1) (Lex p1))"

definition parseInfixOpDefinition :: "nat \<Rightarrow> ASTLib \<Rightarrow> CMMParser \<Rightarrow> unit ParseResult" where
  "parseInfixOpDefinition n A p =
     (if getTok p \<noteq> Token_Kw_infix then AssertFailed
      else
        let Precedence = (if isInteger (getTok (Lex p)) then getIntVal (Lex p)
                          else DefaultPrecedence A);
            p1 = (if isInteger (getTok (Lex p)) then Lex (Lex p) else Lex p)
        in if \<not> isIdentifier (getTok p1)
           then Error ''left hand operand name for infix operator expected'' p1
           else if \<not> isInfixOp (getTok (Lex p1))
           then Error ''symbol of infix operator expected'' (Lex p1)
           else if \<not> isIdentifier (getTok (Lex (Lex p1)))
           then Error ''right hand operand name for infix operator expected'' (Lex (Lex p1))
           else
             let LHS = getStrVal p1;
                 Symbol = getStrVal (Lex p1);
                 RHS = getStrVal (Lex (Lex p1));
                 p4 = Lex (Lex (Lex p1))
             in thenP (if getTok p4 = Token_Equal then parseExprStatement n A (Lex p4)
                       else parseStatement n A p4) (\<lambda>p5 Statement.
                  let r = emplace (BinOpPrecedence p5) Symbol (int8 Precedence);
                      p6 = p5\<lparr>BinOpPrecedence := fst r\<rparr>;
                      p7 = (if \<not> snd r
                            then Warning (''infix operator '' @ Symbol @ '' overrides another'') p6
                            else p6)
                  in Ok (p7\<lparr>InfixOpDefinition :=
                            fst (emplace (InfixOpDefinition p7) Symbol
                                   (InfixOpDefinitionAST Symbol LHS RHS Statement))\<rparr>) ()))"

text \<open>
  \<^verbatim>\<open>parseTopLevel\<close>. After a type keyword and an identifier the parser looks at the next
  token; unless it is \<^verbatim>\<open>(\<close> it seeks back to the identifier (\<^verbatim>\<open>seekLoc(Loc); Lex()\<close>),
  which here restores the token list as it was after the type keyword.
\<close>

definition parseTopLevel :: "nat \<Rightarrow> ASTLib \<Rightarrow> CMMParser \<Rightarrow> unit ParseResult" where
  "parseTopLevel n A p =
     (if getTok p = Token_Kw_infix then parseInfixOpDefinition n A p
      else if getTok p = Token_Kw_void then parseFunctionDefinition n A p
      else if getTok p = Token_Kw_int \<or> getTok p = Token_Kw_bool \<or>
              getTok p = Token_Kw_double \<or> getTok p = Token_Kw_string
      then thenP (parseTypeSpecifier p) (\<lambda>p1 Type.
             if \<not> isIdentifier (getTok p1) then Error ''expect identifier after type'' p1
             else if getTok (Lex p1) = Token_LParen
             then parseFunctionDefinition_body n A Type (getStrVal p1) (Lex p1)
             else thenP (parseDeclarationStatement_aux n A Type p1) (\<lambda>p2 DeclStatement.
                    Ok (p2\<lparr>TopLevelBlock := TopLevelBlock p2 @ [DeclStatement]\<rparr>) ()))
      else thenP (parseStatement n A p) (\<lambda>p1 Statement.
             Ok (p1\<lparr>TopLevelBlock := TopLevelBlock p1 @ [Statement]\<rparr>) ()))"

text \<open>
  \<^verbatim>\<open>parse\<close>: its first \<^verbatim>\<open>Lex()\<close> loads the first token, which is the head of the token
  list here; then top-level entities are parsed until \<^verbatim>\<open>Eof\<close> or \<^verbatim>\<open>Error\<close>.
\<close>

fun parse :: "nat \<Rightarrow> ASTLib \<Rightarrow> CMMParser \<Rightarrow> unit ParseResult" where
  "parse 0 A p = OutOfFuel"
| "parse (Suc n) A p =
     (if getTok p = Token_Eof \<or> getTok p = Token_Error then Ok p ()
      else thenP (parseTopLevel n A p) (\<lambda>p1 u. parse n A p1))"

text \<open>A parser of the given tokens with nothing defined yet.\<close>

definition CMMParser_init :: "Token list \<Rightarrow> CMMParser" where
  "CMMParser_init ts = \<lparr>Lexer = ts, ErrorList = [], BinOpPrecedence = [],
     InfixOpDefinition = [], FunctionDefinition = [], TopLevelBlock = []\<rparr>"

subsection \<open>Runtime values, environments and results\<close>

text \<open>
  \<^verbatim>\<open>cvm::BasicValue\<close>: a tagged value holding the payload of its type tag; \<open>ValueType\<close> reads
  the tag (\<^verbatim>\<open>Val.Type\<close>). A \<^verbatim>\<open>double\<close> payload is a real number here; the only double
  computed in the interpreter is the conversion of an \<^verbatim>\<open>int\<close>, which is exact.
\<close>

datatype BasicValue =
  BoolValue bool | IntValue int | DoubleValue real | StringValue string | VoidValue

fun ValueType :: "BasicValue \<Rightarrow> BasicType" where
  "ValueType (BoolValue b) = BoolType"
| "ValueType (IntValue i) = IntType"
| "ValueType (DoubleValue d) = DoubleType"
| "ValueType (StringValue s) = StringType"
| "ValueType VoidValue = VoidType"

definition isInt :: "BasicValue \<Rightarrow> bool" where
  "isInt v = (ValueType v = IntType)"

definition isDouble :: "BasicValue \<Rightarrow> bool" where
  "isDouble v = (ValueType v = DoubleType)"

definition isString :: "BasicValue \<Rightarrow> bool" where
  "isString v = (ValueType v = StringType)"

text \<open>
  Modelled from the spec: the constructor \<^verbatim>\<open>BasicValue(BasicType)\<close> is not among the
  sources. The spec: ``An uninitialized declaration binds a zero/default value of its declared
  type.''
\<close>

fun BasicValue_ofType :: "BasicType \<Rightarrow> BasicValue" where
  "BasicValue_ofType BoolType = BoolValue False"
| "BasicValue_ofType IntType = IntValue 0"
| "BasicValue_ofType DoubleType = DoubleValue 0"
| "BasicValue_ofType StringType = StringValue []"
| "BasicValue_ofType VoidType = VoidValue"

text \<open>
  \<^verbatim>\<open>static_cast<double>(Val.IntVal)\<close> with the type tag set to \<^verbatim>\<open>DoubleType\<close>. It is applied
  to int values only.
\<close>

fun widen :: "BasicValue \<Rightarrow> BasicValue" where
  "widen (IntValue i) = DoubleValue (of_int i)"
| "widen v = v"

text \<open>
  What stops the process: \<^verbatim>\<open>RuntimeError\<close> prints its message and calls \<^verbatim>\<open>std::exit\<close>;
  dereferencing a null pointer and reading a node through a \<^verbatim>\<open>static_cast\<close> to a class
  it does not have are undefined behaviour, kept apart as faults of their own;
  \<open>StackExhausted\<close> says that the bound on the depth of calls was reached.
\<close>

datatype Abort = RuntimeError string | NullDereference | InvalidCast | StackExhausted

fun thenE :: "Abort + 'a \<Rightarrow> ('a \<Rightarrow> Abort + 'b) \<Rightarrow> Abort + 'b" where
  "thenE (Inl e) f = Inl e"
| "thenE (Inr x) f = f x"

text \<open>
  \<^verbatim>\<open>VariableEnv\<close>: a variable map and a pointer to the outer environment. The chain is the
  list of its maps, innermost first; the last one is \<^verbatim>\<open>TopLevelEnv\<close>.
\<close>

type_synonym VarMap = "(string \<times> BasicValue) list"
type_synonym VariableEnv = "VarMap list"

text \<open>\<^verbatim>\<open>VarMap[Name] = Val\<close>: overwrites the entry of the name, or adds one.\<close>

fun VarMap_assign :: "VarMap \<Rightarrow> string \<Rightarrow> BasicValue \<Rightarrow> VarMap" where
  "VarMap_assign [] Name Val = [(Name, Val)]"
| "VarMap_assign ((k, v) # m) Name Val =
     (if k = Name then (k, Val) # m else (k, v) # VarMap_assign m Name Val)"

text \<open>
  Modelled from the spec: \<^verbatim>\<open>VariableEnv::contains\<close> is not among the sources. The spec:
  ``redeclaring a name already present in the current (innermost) environment is a fatal
  error''.
\<close>

definition contains :: "VariableEnv \<Rightarrow> string \<Rightarrow> bool" where
  "contains Env Name = (case Env of [] \<Rightarrow> False | E # Outer \<Rightarrow> map_of E Name \<noteq> None)"

text \<open>
  \<^verbatim>\<open>Env->VarMap.emplace(std::make_pair(Name, Val))\<close>: the binding goes into the map of the
  environment \<^verbatim>\<open>Env\<close> points to, the innermost one. An empty chain is a null \<^verbatim>\<open>Env\<close>.
\<close>

definition VarMap_emplace :: "VariableEnv \<Rightarrow> string \<Rightarrow> BasicValue \<Rightarrow> Abort + VariableEnv" where
  "VarMap_emplace Env Name Val =
     (case Env of [] \<Rightarrow> Inl NullDereference
      | E # Outer \<Rightarrow> Inr (fst (emplace E Name Val) # Outer))"

datatype ResultKind =
  NormalStatementResult | ReturnStatementResult | BreakStatementResult | ContinueStatementResult

record ExecutionResult =
  Kind :: ResultKind
  ReturnValue :: BasicValue

text \<open>
  The interpreter object: the parsed program, the table of native functions, and the parts of
  the class and of the value library that the source file calls but does not define (the four
  operator evaluators, \<^verbatim>\<open>toString\<close>, \<^verbatim>\<open>TypeToStr\<close>, and the value a default-constructed
  \<^verbatim>\<open>BasicValue\<close> holds). Whatever a native function prints is not modelled.
\<close>

record CMMInterpreter =
  Program :: "StatementAST option list"
  UserFunctionMap :: "(string \<times> FunctionDefinitionAST) list"
  NativeFunctionMap :: "(string \<times> (BasicValue list \<Rightarrow> Abort + BasicValue)) list"
  evaluateBinArith :: "OperatorKind \<Rightarrow> BasicValue \<Rightarrow> BasicValue \<Rightarrow> Abort + BasicValue"
  evaluateBinLogic :: "OperatorKind \<Rightarrow> BasicValue \<Rightarrow> BasicValue \<Rightarrow> Abort + BasicValue"
  evaluateBinRelation :: "OperatorKind \<Rightarrow> BasicValue \<Rightarrow> BasicValue \<Rightarrow> Abort + BasicValue"
  evaluateBinBitwise :: "OperatorKind \<Rightarrow> BasicValue \<Rightarrow> BasicValue \<Rightarrow> Abort + BasicValue"
  toString :: "BasicValue \<Rightarrow> string"
  TypeToStr :: "BasicType \<Rightarrow> string"
  BasicValue_default :: BasicValue

text \<open>\<^verbatim>\<open>ExecutionResult()\<close> and \<^verbatim>\<open>ExecutionResult(Kind)\<close>.\<close>

definition ExecutionResult_new :: "CMMInterpreter \<Rightarrow> ResultKind \<Rightarrow> ExecutionResult" where
  "ExecutionResult_new I K = \<lparr>Kind = K, ReturnValue = BasicValue_default I\<rparr>"

text \<open>\<^verbatim>\<open>std::to_string\<close> of a number that is not negative.\<close>

fun to_string :: "nat \<Rightarrow> string" where
  "to_string n =
     (if n < 10 then [''0123456789'' ! n]
      else to_string (n div 10) @ [''0123456789'' ! (n mod 10)])"

text \<open>The enumerator's value, as \<^verbatim>\<open>std::to_string(OpKind)\<close> prints it.\<close>

fun OperatorKind_code :: "OperatorKind \<Rightarrow> nat" where
  "OperatorKind_code Add = 0" | "OperatorKind_code Minus = 1"
| "OperatorKind_code Multiply = 2" | "OperatorKind_code Division = 3"
| "OperatorKind_code Modulo = 4" | "OperatorKind_code LogicalAnd = 5"
| "OperatorKind_code LogicalOr = 6" | "OperatorKind_code Less = 7"
| "OperatorKind_code LessEqual = 8" | "OperatorKind_code Equal = 9"
| "OperatorKind_code Greater = 10" | "OperatorKind_code GreaterEqual = 11"
| "OperatorKind_code BitwiseAnd = 12" | "OperatorKind_code BitwiseOr = 13"
| "OperatorKind_code BitwiseXor = 14" | "OperatorKind_code LeftShift = 15"
| "OperatorKind_code RightShift = 16" | "OperatorKind_code Assign = 17"
| "OperatorKind_code Index = 18"

subsection \<open>The interpreter\<close>

text \<open>
  \<^verbatim>\<open>searchVariable\<close> walks the chain outwards and returns the first binding of the name;
  \<open>searchVariable_store\<close> writes through the iterator it returned.
\<close>

fun searchVariable :: "VariableEnv \<Rightarrow> string \<Rightarrow> Abort + BasicValue" where
  "searchVariable [] Name = Inl (RuntimeError (''variable `'' @ Name @ ''' is undefined''))"
| "searchVariable (E # Outer) Name =
     (case map_of E Name of Some v \<Rightarrow> Inr v | None \<Rightarrow> searchVariable Outer Name)"

fun searchVariable_store :: "VariableEnv \<Rightarrow> string \<Rightarrow> BasicValue \<Rightarrow> VariableEnv" where
  "searchVariable_store [] Name Val = []"
| "searchVariable_store (E # Outer) Name Val =
     (case map_of E Name of
        Some v \<Rightarrow> VarMap_assign E Name Val # Outer
      | None \<Rightarrow> E # searchVariable_store Outer Name Val)"

definition evaluateIdentifierExpr :: "VariableEnv \<Rightarrow> string \<Rightarrow> Abort + BasicValue" where
  "evaluateIdentifierExpr Env Name = searchVariable Env Name"

definition evaluateBinaryCalc ::
  "CMMInterpreter \<Rightarrow> OperatorKind \<Rightarrow> BasicValue \<Rightarrow> BasicValue \<Rightarrow> Abort + BasicValue" where
  "evaluateBinaryCalc I OpKind LHS RHS =
     (case OpKind of
        Add \<Rightarrow> if isString LHS \<or> isString RHS
               then Inr (StringValue (toString I LHS @ toString I RHS))
               else evaluateBinArith I OpKind LHS RHS
      | Minus \<Rightarrow> evaluateBinArith I OpKind LHS RHS
      | Multiply \<Rightarrow> evaluateBinArith I OpKind LHS RHS
      | Division \<Rightarrow> evaluateBinArith I OpKind LHS RHS
      | LogicalAnd \<Rightarrow> evaluateBinLogic I OpKind LHS RHS
      | LogicalOr \<Rightarrow> evaluateBinLogic I OpKind LHS RHS
      | Less \<Rightarrow> evaluateBinRelation I OpKind LHS RHS
      | LessEqual \<Rightarrow> evaluateBinRelation I OpKind LHS RHS
      | Equal \<Rightarrow> evaluateBinRelation I OpKind LHS RHS
      | Greater \<Rightarrow> evaluateBinRelation I OpKind LHS RHS
      | GreaterEqual \<Rightarrow> evaluateBinRelation I OpKind LHS RHS
      | BitwiseAnd \<Rightarrow> evaluateBinBitwise I OpKind LHS RHS
      | BitwiseOr \<Rightarrow> evaluateBinBitwise I OpKind LHS RHS
      | BitwiseXor \<Rightarrow> evaluateBinBitwise I OpKind LHS RHS
      | LeftShift \<Rightarrow> evaluateBinBitwise I OpKind LHS RHS
      | RightShift \<Rightarrow> evaluateBinBitwise I OpKind LHS RHS
      | Assign \<Rightarrow>
          Inl (RuntimeError ''assignment/index should be handled in evaluateBinaryOpExpr'')
      | Index \<Rightarrow>
          Inl (RuntimeError ''assignment/index should be handled in evaluateBinaryOpExpr'')
      | _ \<Rightarrow> Inl (RuntimeError (''unknown binary operator kind (code :'' @
                   to_string (OperatorKind_code OpKind) @ '')'')))"

definition callNativeFunction ::
  "(BasicValue list \<Rightarrow> Abort + BasicValue) \<Rightarrow> BasicValue list \<Rightarrow> Abort + BasicValue" where
  "callNativeFunction Function Args = Function Args"

text \<open>
  The loop of \<^verbatim>\<open>callUserFunction\<close> that checks each argument against its parameter and
  binds it in the function's environment. It runs over the arguments; the parameter iterator
  cannot run out, the sizes having been compared before.
\<close>

fun bindArguments ::
  "CMMInterpreter \<Rightarrow> string \<Rightarrow> Parameter list \<Rightarrow> BasicValue list \<Rightarrow> VarMap \<Rightarrow>
   Abort + VarMap" where
  "bindArguments I FName Paras [] FuncEnv = Inr FuncEnv"
| "bindArguments I FName [] (Argument # Args) FuncEnv = Inl NullDereference"
| "bindArguments I FName (Para # Paras) (Argument # Args) FuncEnv =
     (if Para_getType Para \<noteq> ValueType Argument
      then Inl (RuntimeError (''in function `'' @ FName @ ''', parameter `'' @
             Para_getName Para @ ''' has type '' @ TypeToStr I (Para_getType Para) @
             '', but argument has type '' @ TypeToStr I (ValueType Argument)))
      else bindArguments I FName Paras Args (VarMap_assign FuncEnv (Para_getName Para) Argument))"

text \<open>
  The mutually recursive evaluators and executors. Each takes the environment chain and
  returns it as the call left it. \<^verbatim>\<open>evaluateExpression\<close> switches on the kind of the node and
  reads the node through a \<^verbatim>\<open>static_cast\<close> to the class of that kind; a kind that is none of
  the eight case labels takes the \<^verbatim>\<open>default\<close> branch. The first argument bounds the depth of calls; the loops over
  a block's statements, a call's arguments and a list's declarators do not use it up.
\<close>

function (sequential) evaluateExpression ::
    "nat \<Rightarrow> CMMInterpreter \<Rightarrow> VariableEnv \<Rightarrow> ExpressionAST \<Rightarrow>
     Abort + (BasicValue \<times> VariableEnv)"
  and evaluateFunctionCallExpr ::
    "nat \<Rightarrow> CMMInterpreter \<Rightarrow> VariableEnv \<Rightarrow> string \<Rightarrow> ExpressionAST list \<Rightarrow>
     Abort + (BasicValue \<times> VariableEnv)"
  and evaluateBinaryOpExpr ::
    "nat \<Rightarrow> CMMInterpreter \<Rightarrow> VariableEnv \<Rightarrow> OperatorKind \<Rightarrow> ExpressionAST \<Rightarrow> ExpressionAST \<Rightarrow>
     Abort + (BasicValue \<times> VariableEnv)"
  and evaluateAssignment ::
    "nat \<Rightarrow> CMMInterpreter \<Rightarrow> VariableEnv \<Rightarrow> string \<Rightarrow> ExpressionAST \<Rightarrow>
     Abort + (BasicValue \<times> VariableEnv)"
  and evaluateArgumentList ::
    "nat \<Rightarrow> CMMInterpreter \<Rightarrow> VariableEnv \<Rightarrow> ExpressionAST list \<Rightarrow>
     Abort + (BasicValue list \<times> VariableEnv)"
  and callUserFunction ::
    "nat \<Rightarrow> CMMInterpreter \<Rightarrow> VarMap \<Rightarrow> FunctionDefinitionAST \<Rightarrow> BasicValue list \<Rightarrow>
     Abort + (BasicValue \<times> VarMap)"
  and executeStatement ::
    "nat \<Rightarrow> CMMInterpreter \<Rightarrow> VariableEnv \<Rightarrow> StatementAST option \<Rightarrow>
     Abort + (ExecutionResult \<times> VariableEnv)"
  and executeBlock ::
    "nat \<Rightarrow> CMMInterpreter \<Rightarrow> VariableEnv \<Rightarrow> StatementAST option list \<Rightarrow>
     Abort + (ExecutionResult \<times> VariableEnv)"
  and executeBlock_loop ::
    "nat \<Rightarrow> CMMInterpreter \<Rightarrow> VariableEnv \<Rightarrow> ExecutionResult \<Rightarrow> StatementAST option list \<Rightarrow>
     Abort + (ExecutionResult \<times> VariableEnv)"
  and executeExprStatement ::
    "nat \<Rightarrow> CMMInterpreter \<Rightarrow> VariableEnv \<Rightarrow> ExpressionAST \<Rightarrow>
     Abort + (ExecutionResult \<times> VariableEnv)"
  and executeReturnStatement ::
    "nat \<Rightarrow> CMMInterpreter \<Rightarrow> VariableEnv \<Rightarrow> ExpressionAST option \<Rightarrow>
     Abort + (ExecutionResult \<times> VariableEnv)"
  and executeDeclarationList ::
    "nat \<Rightarrow> CMMInterpreter \<Rightarrow> VariableEnv \<Rightarrow> DeclarationAST list \<Rightarrow>
     Abort + (ExecutionResult \<times> VariableEnv)"
  and executeDeclaration ::
    "nat \<Rightarrow> CMMInterpreter \<Rightarrow> VariableEnv \<Rightarrow> DeclarationAST \<Rightarrow>
     Abort + (ExecutionResult \<times> VariableEnv)"
where
  "evaluateExpression 0 I Env Expr = Inl StackExhausted"
| "evaluateExpression (Suc n) I Env Expr =
     (case Expr_getKind Expr of
        IntExpression \<Rightarrow>
          (case Expr of IntAST Value \<Rightarrow> Inr (IntValue Value, Env) | _ \<Rightarrow> Inl InvalidCast)
      | DoubleExpression \<Rightarrow>
          (case Expr of DoubleAST Value \<Rightarrow> Inr (DoubleValue Value, Env)
           | _ \<Rightarrow> Inl InvalidCast)
      | BoolExpression \<Rightarrow>
          (case Expr of BoolAST Value \<Rightarrow> Inr (BoolValue Value, Env) | _ \<Rightarrow> Inl InvalidCast)
      | StringExpression \<Rightarrow>
          (case Expr of StringAST Value \<Rightarrow> Inr (StringValue Value, Env)
           | _ \<Rightarrow> Inl InvalidCast)
      | IdentifierExpression \<Rightarrow>
          (case Expr of
             IdentifierAST Name \<Rightarrow>
               thenE (evaluateIdentifierExpr Env Name) (\<lambda>Value. Inr (Value, Env))
           | _ \<Rightarrow> Inl InvalidCast)
      | FunctionCallExpression \<Rightarrow>
          (case Expr of
             FunctionCallAST Callee Arguments Dynamic \<Rightarrow>
               evaluateFunctionCallExpr n I Env Callee Arguments
           | _ \<Rightarrow> Inl InvalidCast)
      | BinaryOperatorExpression \<Rightarrow>
          (case Expr of
             BinaryOperatorAST OpKind LHS RHS \<Rightarrow> evaluateBinaryOpExpr n I Env OpKind LHS RHS
           | _ \<Rightarrow> Inl InvalidCast)
      | UnaryOperatorExpression \<Rightarrow> Inl (RuntimeError ''unimplemented'')
      | InfixOpExpression \<Rightarrow> Inl (RuntimeError ''unknown expression kind''))"

| "evaluateFunctionCallExpr 0 I Env Callee Arguments = Inl StackExhausted"
| "evaluateFunctionCallExpr (Suc n) I Env Callee Arguments =
     (case map_of (UserFunctionMap I) Callee of
        Some UserFunc \<Rightarrow>
          thenE (evaluateArgumentList n I Env Arguments) (\<lambda>(Args, Env1).
            if Env1 = [] then Inl NullDereference
            else thenE (callUserFunction n I (last Env1) UserFunc Args)
                   (\<lambda>(Value, TopLevelEnv). Inr (Value, butlast Env1 @ [TopLevelEnv])))
      | None \<Rightarrow>
          (case map_of (NativeFunctionMap I) Callee of
             Some NativeFunc \<Rightarrow>
               thenE (evaluateArgumentList n I Env Arguments) (\<lambda>(Args, Env1).
                 thenE (callNativeFunction NativeFunc Args) (\<lambda>Value. Inr (Value, Env1)))
           | None \<Rightarrow> Inl (RuntimeError (''function `'' @ Callee @ ''' is undefined''))))"

| "evaluateBinaryOpExpr 0 I Env OpKind LHS RHS = Inl StackExhausted"
| "evaluateBinaryOpExpr (Suc n) I Env OpKind LHS RHS =
     (if OpKind = Assign
      then (case LHS of
              IdentifierAST Name \<Rightarrow> evaluateAssignment n I Env Name RHS
            | _ \<Rightarrow> Inl InvalidCast)
      else if OpKind = Index then Inl (RuntimeError ''array unimplemented!'')
      else thenE (evaluateExpression n I Env LHS) (\<lambda>(LHSValue, Env1).
             thenE (evaluateExpression n I Env1 RHS) (\<lambda>(RHSValue, Env2).
               thenE (evaluateBinaryCalc I OpKind LHSValue RHSValue) (\<lambda>Value.
                 Inr (Value, Env2)))))"

| "evaluateAssignment 0 I Env Name Expr = Inl StackExhausted"
| "evaluateAssignment (Suc n) I Env Name Expr =
     thenE (searchVariable Env Name) (\<lambda>Found.
       thenE (evaluateExpression n I Env Expr) (\<lambda>(RHS, Env1).
         thenE (searchVariable Env1 Name) (\<lambda>LHS.
           if ValueType LHS \<noteq> ValueType RHS
           then (if isDouble LHS \<and> isInt RHS
                 then Inr (widen RHS, searchVariable_store Env1 Name (widen RHS))
                 else Inl (RuntimeError (''assignment to '' @ TypeToStr I (ValueType LHS) @
                        '' variable `'' @ Name @ ''' with '' @ TypeToStr I (ValueType RHS) @
                        '' expression'')))
           else Inr (RHS, searchVariable_store Env1 Name RHS))))"

| "evaluateArgumentList n I Env [] = Inr ([], Env)"
| "evaluateArgumentList n I Env (P # Args) =
     thenE (evaluateExpression n I Env P) (\<lambda>(Value, Env1).
       thenE (evaluateArgumentList n I Env1 Args) (\<lambda>(Res, Env2). Inr (Value # Res, Env2)))"

| "callUserFunction 0 I TopLevelEnv Function Args = Inl StackExhausted"
| "callUserFunction (Suc n) I TopLevelEnv Function Args =
     (if length Args \<noteq> length (Func_getParameterList Function)
      then Inl (RuntimeError (''Function `'' @ Func_getName Function @ ''' expects '' @
             to_string (length (Func_getParameterList Function)) @ '' parameter(s), '' @
             to_string (length Args) @ '' argument(s) provided''))
      else thenE (bindArguments I (Func_getName Function) (Func_getParameterList Function)
                    Args []) (\<lambda>FuncEnv.
        thenE (executeStatement n I [FuncEnv, TopLevelEnv] (Func_getStatement Function))
          (\<lambda>(Result, Env1).
             if ValueType (ReturnValue Result) \<noteq> Func_getType Function
             then Inl (RuntimeError (''function `'' @ Func_getName Function @
                    ''' ought to return '' @ TypeToStr I (Func_getType Function) @
                    '', but got '' @ TypeToStr I (ValueType (ReturnValue Result))))
             else Inr (ReturnValue Result, last Env1))))"

| "executeStatement 0 I Env Stmt = Inl StackExhausted"
| "executeStatement (Suc n) I Env Stmt =
     (case Stmt of
        None \<Rightarrow> Inl NullDereference
      | Some (ExprStatementAST Expression) \<Rightarrow> executeExprStatement n I Env Expression
      | Some (BlockAST StatementList) \<Rightarrow> executeBlock n I Env StatementList
      | Some (IfStatementAST Condition StatementThen StatementElse) \<Rightarrow>
          Inr (ExecutionResult_new I NormalStatementResult, Env)
      | Some (ReturnStatementAST ReturnValueExpr) \<Rightarrow>
          executeReturnStatement n I Env ReturnValueExpr
      | Some (WhileStatementAST Condition Statement) \<Rightarrow>
          Inl (RuntimeError ''single declaration should not be used by user'')
      | Some (ForStatementAST Init Condition Post Statement) \<Rightarrow>
          Inl (RuntimeError ''single declaration should not be used by user'')
      | Some ContinueStatementAST \<Rightarrow>
          Inl (RuntimeError ''single declaration should not be used by user'')
      | Some BreakStatementAST \<Rightarrow>
          Inl (RuntimeError ''single declaration should not be used by user'')
      | Some (DeclarationStatement Decl) \<Rightarrow>
          Inl (RuntimeError ''single declaration should not be used by user'')
      | Some (DeclarationListAST Type DeclarationList) \<Rightarrow>
          executeDeclarationList n I Env DeclarationList)"

| "executeBlock 0 I OuterEnv StatementList = Inl StackExhausted"
| "executeBlock (Suc n) I OuterEnv StatementList =
     thenE (executeBlock_loop n I ([] # OuterEnv)
              (ExecutionResult_new I NormalStatementResult) StatementList)
       (\<lambda>(Res, CurrentEnv). Inr (Res, tl CurrentEnv))"

| "executeBlock_loop n I CurrentEnv Res [] = Inr (Res, CurrentEnv)"
| "executeBlock_loop n I CurrentEnv Res (Statement # StatementList) =
     thenE (executeStatement n I CurrentEnv Statement) (\<lambda>(Res1, Env1).
       if Kind Res1 \<noteq> NormalStatementResult then Inr (Res1, Env1)
       else executeBlock_loop n I Env1 Res1 StatementList)"

| "executeExprStatement 0 I Env Expression = Inl StackExhausted"
| "executeExprStatement (Suc n) I Env Expression =
     thenE (evaluateExpression n I Env Expression) (\<lambda>(Value, Env1).
       Inr (ExecutionResult_new I NormalStatementResult, Env1))"

| "executeReturnStatement 0 I Env ReturnValueExpr = Inl StackExhausted"
| "executeReturnStatement (Suc n) I Env ReturnValueExpr =
     (case ReturnValueExpr of
        Some Expr \<Rightarrow>
          thenE (evaluateExpression n I Env Expr) (\<lambda>(Value, Env1).
            Inr ((ExecutionResult_new I ReturnStatementResult)\<lparr>ReturnValue := Value\<rparr>, Env1))
      | None \<Rightarrow> Inr (ExecutionResult_new I ReturnStatementResult, Env))"

| "executeDeclarationList n I Env [] = Inr (ExecutionResult_new I NormalStatementResult, Env)"
| "executeDeclarationList n I Env (Decl # DeclarationList) =
     thenE (executeDeclaration n I Env Decl) (\<lambda>(Res, Env1).
       executeDeclarationList n I Env1 DeclarationList)"

| "executeDeclaration 0 I Env Decl = Inl StackExhausted"
| "executeDeclaration (Suc n) I Env Decl =
     (if contains Env (Decl_getName Decl)
      then Inl (RuntimeError (''variable `'' @ Decl_getName Decl @
             ''' is already defined in current scope''))
      else if Decl_isArray Decl then Inl (RuntimeError ''unimplemented!'')
      else case Decl_getInitializer Decl of
        Some Initializer \<Rightarrow>
          thenE (evaluateExpression n I Env Initializer) (\<lambda>(Val, Env1).
            if ValueType Val \<noteq> Decl_getType Decl
            then (if Decl_getType Decl = DoubleType \<and> isInt Val
                  then thenE (VarMap_emplace Env1 (Decl_getName Decl) (widen Val))
                         (\<lambda>Env2. Inr (ExecutionResult_new I NormalStatementResult, Env2))
                  else Inl (RuntimeError (''variable `'' @ Decl_getName Decl @
                         ''' is declared to be '' @ TypeToStr I (Decl_getType Decl) @
                         '', but is initialized to be '' @ TypeToStr I (ValueType Val))))
            else thenE (VarMap_emplace Env1 (Decl_getName Decl) Val)
                   (\<lambda>Env2. Inr (ExecutionResult_new I NormalStatementResult, Env2)))
      | None \<Rightarrow>
          thenE (VarMap_emplace Env (Decl_getName Decl)
                   (BasicValue_ofType (Decl_getType Decl)))
            (\<lambda>Env2. Inr (ExecutionResult_new I NormalStatementResult, Env2)))"
  by pat_completeness auto
termination
  by (relation "inv_image (less_than <*lex*> less_than)
       (case_sum
         (case_sum (case_sum (\<lambda>x. (fst x, 0)) (case_sum (\<lambda>x. (fst x, 0)) (\<lambda>x. (fst x, 0))))
           (case_sum (\<lambda>x. (fst x, 0))
             (case_sum (\<lambda>(n, I, Env, Args). (n, Suc (length Args))) (\<lambda>x. (fst x, 0)))))
         (case_sum
           (case_sum (\<lambda>x. (fst x, 0))
             (case_sum (\<lambda>x. (fst x, 0)) (\<lambda>(n, I, Env, Res, L). (n, Suc (length L)))))
           (case_sum (case_sum (\<lambda>x. (fst x, 0)) (\<lambda>x. (fst x, 0)))
             (case_sum (\<lambda>(n, I, Env, L). (n, Suc (length L))) (\<lambda>x. (fst x, 0))))))")
     auto

text \<open>
  \<^verbatim>\<open>interpret\<close> (\<open>interpretProgram\<close> here, the name being a keyword) runs the top-level
  statements in the top-level environment and returns that environment when every statement
  ended normally.
\<close>

fun interpret_loop ::
  "nat \<Rightarrow> CMMInterpreter \<Rightarrow> VariableEnv \<Rightarrow> StatementAST option list \<Rightarrow> Abort + VariableEnv" where
  "interpret_loop n I Env [] = Inr Env"
| "interpret_loop n I Env (Stmt # StatementList) =
     thenE (executeStatement n I Env Stmt) (\<lambda>(Res, Env1).
       if Kind Res \<noteq> NormalStatementResult
       then Inl (RuntimeError ''unbounded break/continue/return'')
       else interpret_loop n I Env1 StatementList)"

definition interpretProgram :: "nat \<Rightarrow> CMMInterpreter \<Rightarrow> VarMap \<Rightarrow> Abort + VariableEnv" where
  "interpretProgram n I TopLevelEnv = interpret_loop n I [TopLevelEnv] (Program I)"


subsection \<open>Concrete instances for the closed examples\<close>

text \<open>
  Modelled from the spec: the node factories \<^verbatim>\<open>BinaryOperatorAST::create\<close>,
  \<^verbatim>\<open>tryFoldBinOp\<close>, \<^verbatim>\<open>tryFoldUnaryOp\<close> and the three \<^verbatim>\<open>create\<close> functions of the statement
  classes are not among the sources. The spec: ``results are folded into a binary-operator or
  generic infix-operator-application node'', and its examples name the nodes \<open>Add\<close>, \<open>Mul\<close>
  and \<open>Assign\<close>; assignment ``requires its left side be a plain identifier node''.
  \<open>nodeASTLib\<close> builds the node of the operator and nothing else, and its factory of the
  assignment node hands back a node for a left side that is an identifier only. The operator
  kind of a token of the generic loop follows the names of the enumerators; a token without one
  is given none.
\<close>

fun OperatorKind_of :: "Token \<Rightarrow> OperatorKind" where
  "OperatorKind_of Token_Plus = Add"
| "OperatorKind_of Token_Minus = Minus"
| "OperatorKind_of Token_Star = Multiply"
| "OperatorKind_of Token_Slash = Division"
| "OperatorKind_of Token_Percent = Modulo"
| "OperatorKind_of Token_AmpAmp = LogicalAnd"
| "OperatorKind_of Token_PipePipe = LogicalOr"
| "OperatorKind_of Token_Less = Less"
| "OperatorKind_of Token_LessEqual = LessEqual"
| "OperatorKind_of Token_EqualEqual = Equal"
| "OperatorKind_of Token_Greater = Greater"
| "OperatorKind_of Token_GreaterEqual = GreaterEqual"
| "OperatorKind_of Token_Amp = BitwiseAnd"
| "OperatorKind_of Token_Pipe = BitwiseOr"
| "OperatorKind_of Token_Caret = BitwiseXor"
| "OperatorKind_of Token_LessLess = LeftShift"
| "OperatorKind_of Token_GreaterGreater = RightShift"

definition isIdentifierAST :: "ExpressionAST \<Rightarrow> bool" where
  "isIdentifierAST Expr = (Expr_getKind Expr = IdentifierExpression)"

definition nodeASTLib :: ASTLib where
  "nodeASTLib = \<lparr>
     BinaryOperatorAST_create = (\<lambda>TokenKind LHS RHS.
       if TokenKind = Token_Equal
       then (if isIdentifierAST LHS then Some (BinaryOperatorAST Assign LHS RHS) else None)
       else Some (BinaryOperatorAST (OperatorKind_of TokenKind) LHS RHS)),
     BinaryOperatorAST_tryFoldBinOp = (\<lambda>TokenKind. BinaryOperatorAST (OperatorKind_of TokenKind)),
     UnaryOperatorAST_tryFoldUnaryOp = UnaryOperatorAST,
     IfStatementAST_create = (\<lambda>Condition StatementThen StatementElse.
       Some (IfStatementAST Condition StatementThen StatementElse)),
     WhileStatementAST_create = (\<lambda>Condition Statement.
       Some (WhileStatementAST Condition Statement)),
     ForStatementAST_create = (\<lambda>Init Condition Post Statement.
       Some (ForStatementAST Init Condition Post Statement)),
     DefaultPrecedence = 12\<rparr>"

text \<open>
  An interpreter for the closed examples, which hold for every interpreter: no native function,
  and for the parts that are not among the sources a placeholder that no example reaches (the
  operator evaluators end in a runtime error, a default-constructed value is void).
\<close>

fun TypeToStr_names :: "BasicType \<Rightarrow> string" where
  "TypeToStr_names BoolType = ''bool''"
| "TypeToStr_names IntType = ''int''"
| "TypeToStr_names DoubleType = ''double''"
| "TypeToStr_names StringType = ''string''"
| "TypeToStr_names VoidType = ''void''"

definition bareInterpreter :: CMMInterpreter where
  "bareInterpreter = \<lparr>
     Program = [], UserFunctionMap = [], NativeFunctionMap = [],
     evaluateBinArith = (\<lambda>OpKind LHS RHS. Inl (RuntimeError ''evaluateBinArith'')),
     evaluateBinLogic = (\<lambda>OpKind LHS RHS. Inl (RuntimeError ''evaluateBinLogic'')),
     evaluateBinRelation = (\<lambda>OpKind LHS RHS. Inl (RuntimeError ''evaluateBinRelation'')),
     evaluateBinBitwise = (\<lambda>OpKind LHS RHS. Inl (RuntimeError ''evaluateBinBitwise'')),
     toString = (\<lambda>Val. []),
     TypeToStr = TypeToStr_names,
     BasicValue_default = VoidValue\<rparr>"

text \<open>
  Modelled from the spec: how the parser's results reach the interpreter is not among the
  sources. The spec: the interpreter ``walks the AST against an Environment chain and a function
  registry''; it is given the parser's top-level statements and its function definitions.
\<close>

definition loadProgram :: "CMMInterpreter \<Rightarrow> CMMParser \<Rightarrow> CMMInterpreter" where
  "loadProgram I p = I\<lparr>Program := TopLevelBlock p, UserFunctionMap := FunctionDefinition p\<rparr>"

subsection \<open>Example programs, as token lists\<close>

text \<open>\<^verbatim>\<open>int f() { return 1; } int f() { return 2; }\<close>\<close>

definition twoFunctions :: "Token list" where
  "twoFunctions =
     [Token_Kw_int, Token_Identifier ''f'', Token_LParen, Token_RParen, Token_LCurly,
      Token_Kw_return, Token_Integer 1, Token_Semicolon, Token_RCurly,
      Token_Kw_int, Token_Identifier ''f'', Token_LParen, Token_RParen, Token_LCurly,
      Token_Kw_return, Token_Integer 2, Token_Semicolon, Token_RCurly]"

text \<open>\<^verbatim>\<open>infix 5 a <> b = a - b; infix 6 a <> b = a + b;\<close>\<close>

definition twoInfixOps :: "Token list" where
  "twoInfixOps =
     [Token_Kw_infix, Token_Integer 5, Token_Identifier ''a'', Token_InfixOp ''<>'',
      Token_Identifier ''b'', Token_Equal, Token_Identifier ''a'', Token_Minus,
      Token_Identifier ''b'', Token_Semicolon,
      Token_Kw_infix, Token_Integer 6, Token_Identifier ''a'', Token_InfixOp ''<>'',
      Token_Identifier ''b'', Token_Equal, Token_Identifier ''a'', Token_Plus,
      Token_Identifier ''b'', Token_Semicolon]"

text \<open>\<^verbatim>\<open>infix 5 a <> b = a - b; 10 <> 3 <> 1;\<close>\<close>

definition infixProgram :: "Token list" where
  "infixProgram =
     [Token_Kw_infix, Token_Integer 5, Token_Identifier ''a'', Token_InfixOp ''<>'',
      Token_Identifier ''b'', Token_Equal, Token_Identifier ''a'', Token_Minus,
      Token_Identifier ''b'', Token_Semicolon,
      Token_Integer 10, Token_InfixOp ''<>'', Token_Integer 3, Token_InfixOp ''<>'',
      Token_Integer 1, Token_Semicolon]"

text \<open>\<^verbatim>\<open>void f() { ; }\<close>\<close>

definition emptyInFunction :: "Token list" where
  "emptyInFunction =
     [Token_Kw_void, Token_Identifier ''f'', Token_LParen, Token_RParen,
      Token_LCurly, Token_Semicolon, Token_RCurly]"

text \<open>\<^verbatim>\<open>if (true) ;\<close>\<close>

definition emptyInIf :: "Token list" where
  "emptyInIf =
     [Token_Kw_if, Token_LParen, Token_Boolean True, Token_RParen, Token_Semicolon]"

text \<open>\<^verbatim>\<open>int x = 1; ;\<close>\<close>

definition emptyAtTopLevel :: "Token list" where
  "emptyAtTopLevel =
     [Token_Kw_int, Token_Identifier ''x'', Token_Equal, Token_Integer 1, Token_Semicolon,
      Token_Semicolon]"


subsection \<open>The shape of an operator expression\<close>

text \<open>
  What ``a tree that reflects standard precedence and left-associativity'' says, put apart from
  the parser. The binary operators are the tokens of the built-in precedence table other than
  \<^verbatim>\<open>=\<close>, which the parser handles beside the table and the spec in a sentence of its own; the
  precedence of a token is read off \<^verbatim>\<open>getBinOpPrecedence\<close> itself.
\<close>

definition binaryOperators :: "Token list" where
  "binaryOperators =
     [Token_PipePipe, Token_AmpAmp, Token_Pipe, Token_Caret, Token_Amp,
      Token_EqualEqual, Token_ExclaimEqual,
      Token_Less, Token_LessEqual, Token_Greater, Token_GreaterEqual,
      Token_LessLess, Token_GreaterGreater,
      Token_Plus, Token_Minus, Token_Star, Token_Slash, Token_Percent]"

definition isBinaryOperator :: "Token \<Rightarrow> bool" where
  "isBinaryOperator t = (t \<in> set binaryOperators)"

definition Precedence_of :: "Token \<Rightarrow> int" where
  "Precedence_of t = getBinOpPrecedence (CMMParser_init [t])"

text \<open>
  An operand is whatever stands between two operators: a token sequence together with the node
  it is parsed into. \<open>parsesOperand K A p a\<close> says that \<^verbatim>\<open>parsePrimaryExpression\<close>, given at
  least \<open>K\<close> levels of calls, consumes exactly the tokens of \<open>a\<close>, hands back the node of \<open>a\<close>
  and reports nothing, whatever follows the operand, as long as the next token does not
  continue a primary expression (\<^verbatim>\<open>!\<close>, \<^verbatim>\<open>(\<close> and \<^verbatim>\<open>[\<close> do after an identifier).
\<close>

type_synonym Operand = "Token list \<times> ExpressionAST"

definition followsOperand :: "Token \<Rightarrow> bool" where
  "followsOperand t = (t \<noteq> Token_Exclaim \<and> t \<noteq> Token_LParen \<and> t \<noteq> Token_LBrac)"

definition parsesOperand :: "nat \<Rightarrow> ASTLib \<Rightarrow> CMMParser \<Rightarrow> Operand \<Rightarrow> bool" where
  "parsesOperand K A p a =
     (\<forall>n rest. K \<le> n \<and> followsOperand (getTok (p\<lparr>Lexer := rest\<rparr>)) \<longrightarrow>
        parsePrimaryExpression n A (p\<lparr>Lexer := fst a @ rest\<rparr>) =
          Ok (p\<lparr>Lexer := rest\<rparr>) (snd a))"

text \<open>
  The same for a whole expression, as \<^verbatim>\<open>parseExpression\<close> reads it up to a token that is no
  operator.
\<close>

definition parsesExpression :: "nat \<Rightarrow> ASTLib \<Rightarrow> CMMParser \<Rightarrow> Operand \<Rightarrow> bool" where
  "parsesExpression K A p a =
     (\<forall>n rest. K \<le> n \<and> getBinOpPrecedence (p\<lparr>Lexer := rest\<rparr>) < 1 \<and>
        followsOperand (getTok (p\<lparr>Lexer := rest\<rparr>)) \<longrightarrow>
        parseExpression n A (p\<lparr>Lexer := fst a @ rest\<rparr>) = Ok (p\<lparr>Lexer := rest\<rparr>) (snd a))"

text \<open>The simplest operands: a literal or an identifier token, and the node it is parsed into.\<close>

definition isAtom :: "Token \<Rightarrow> bool" where
  "isAtom t = (isConstant t \<or> isIdentifier t)"

fun atomAST :: "Token \<Rightarrow> ExpressionAST" where
  "atomAST (Token_Integer i) = IntAST i"
| "atomAST (Token_Double d) = DoubleAST d"
| "atomAST (Token_Boolean b) = BoolAST b"
| "atomAST (Token_String s) = StringAST s"
| "atomAST (Token_Identifier s) = IdentifierAST s"

text \<open>The prefix operators of \<^verbatim>\<open>parsePrimaryExpression\<close> and their kinds.\<close>

fun prefixOperator :: "Token \<Rightarrow> UnaryOperatorKind option" where
  "prefixOperator Token_Plus = Some UnaryPlus"
| "prefixOperator Token_Minus = Some UnaryMinus"
| "prefixOperator Token_Tilde = Some BitwiseNot"
| "prefixOperator Token_Exclaim = Some LogicalNot"
| "prefixOperator t = None"

text \<open>
  An operator tree over operands: \<open>tokens_of\<close> is the token sequence it is written as,
  \<open>build\<close> the expression that \<^verbatim>\<open>BinaryOperatorAST::tryFoldBinOp\<close> makes of it, bottom up.
  \<open>firstOperand\<close> and \<open>operatorOperands\<close> read the tree from left to right: its leftmost
  operand, then every operator with the operand after it.
\<close>

datatype OpTree = Leaf Operand | Node Token OpTree OpTree

fun tokens_of :: "OpTree \<Rightarrow> Token list" where
  "tokens_of (Leaf a) = fst a"
| "tokens_of (Node opr l r) = tokens_of l @ opr # tokens_of r"

fun build :: "ASTLib \<Rightarrow> OpTree \<Rightarrow> ExpressionAST" where
  "build A (Leaf a) = snd a"
| "build A (Node opr l r) = BinaryOperatorAST_tryFoldBinOp A opr (build A l) (build A r)"

fun firstOperand :: "OpTree \<Rightarrow> Operand" where
  "firstOperand (Leaf a) = a"
| "firstOperand (Node opr l r) = firstOperand l"

fun operatorOperands :: "OpTree \<Rightarrow> (Token \<times> Operand) list" where
  "operatorOperands (Leaf a) = []"
| "operatorOperands (Node opr l r) =
     operatorOperands l @ (opr, firstOperand r) # operatorOperands r"

text \<open>The precedence of the operator at the root; an operand binds tighter than any operator.\<close>

fun rootPrec :: "OpTree \<Rightarrow> int" where
  "rootPrec (Leaf a) = 12"
| "rootPrec (Node opr l r) = Precedence_of opr"

text \<open>
  Standard form: under every operator, the left operand is an operand or an operator that
  binds at least as tightly (so operators of equal precedence nest to the left), and the
  right operand is an operand or an operator that binds strictly tighter.
\<close>

fun standard :: "OpTree \<Rightarrow> bool" where
  "standard (Leaf a) = True"
| "standard (Node opr l r) =
     (isBinaryOperator opr \<and> standard l \<and> standard r \<and>
      Precedence_of opr \<le> rootPrec l \<and> Precedence_of opr < rootPrec r)"

text \<open>The tokens of operators alternating with operands, after a first operand.\<close>

fun operatorOperandTokens :: "(Token \<times> Operand) list \<Rightarrow> Token list" where
  "operatorOperandTokens [] = []"
| "operatorOperandTokens ((opr, a) # oas) = opr # fst a @ operatorOperandTokens oas"

text \<open>
  A tree seen from its leftmost operand: the operators on the path from that operand up to the
  root, each with its right operand. \<open>plugs\<close> puts a tree back together.
\<close>

fun plugs :: "OpTree \<Rightarrow> (Token \<times> OpTree) list \<Rightarrow> OpTree" where
  "plugs L [] = L"
| "plugs L ((opr, R) # sp) = plugs (Node opr L R) sp"

fun plugsAST :: "ASTLib \<Rightarrow> ExpressionAST \<Rightarrow> (Token \<times> OpTree) list \<Rightarrow> ExpressionAST" where
  "plugsAST A Res [] = Res"
| "plugsAST A Res ((opr, R) # sp) =
     plugsAST A (BinaryOperatorAST_tryFoldBinOp A opr Res (build A R)) sp"

fun spineOperands :: "(Token \<times> OpTree) list \<Rightarrow> (Token \<times> Operand) list" where
  "spineOperands [] = []"
| "spineOperands ((opr, R) # sp) =
     (opr, firstOperand R) # operatorOperands R @ spineOperands sp"

fun standardSpine :: "int \<Rightarrow> (Token \<times> OpTree) list \<Rightarrow> bool" where
  "standardSpine E [] = True"
| "standardSpine E ((opr, R) # sp) =
     (isBinaryOperator opr \<and> E \<le> Precedence_of opr \<and> standard R \<and>
      Precedence_of opr < rootPrec R \<and>
      (case sp of [] \<Rightarrow> True | (opr2, R2) # sp2 \<Rightarrow> Precedence_of opr2 \<le> Precedence_of opr) \<and>
      standardSpine E sp)"

text \<open>\<^verbatim>\<open>1 + 2 * 3\<close>, \<^verbatim>\<open>2 * 3 + 1\<close> and \<^verbatim>\<open>1 - 2 - 3\<close>\<close>

definition onePlusTwoTimesThree :: "Token list" where
  "onePlusTwoTimesThree =
     [Token_Integer 1, Token_Plus, Token_Integer 2, Token_Star, Token_Integer 3]"

definition twoTimesThreePlusOne :: "Token list" where
  "twoTimesThreePlusOne =
     [Token_Integer 2, Token_Star, Token_Integer 3, Token_Plus, Token_Integer 1]"

definition oneMinusTwoMinusThree :: "Token list" where
  "oneMinusTwoMinusThree =
     [Token_Integer 1, Token_Minus, Token_Integer 2, Token_Minus, Token_Integer 3]"

text \<open>\<^verbatim>\<open>a = b = 3\<close>\<close>

definition assignChain :: "Token list" where
  "assignChain =
     [Token_Identifier ''a'', Token_Equal, Token_Identifier ''b'', Token_Equal,
      Token_Integer 3]"

text \<open>\<^verbatim>\<open>- a * b\<close>, \<^verbatim>\<open>(1 + 2) * 3\<close> and \<^verbatim>\<open>f(1) + a[2] * 3\<close>\<close>

definition minusATimesB :: "Token list" where
  "minusATimesB = [Token_Minus, Token_Identifier ''a'', Token_Star, Token_Identifier ''b'']"

definition onePlusTwoInParensTimesThree :: "Token list" where
  "onePlusTwoInParensTimesThree =
     [Token_LParen, Token_Integer 1, Token_Plus, Token_Integer 2, Token_RParen, Token_Star,
      Token_Integer 3]"

definition callPlusIndexTimesThree :: "Token list" where
  "callPlusIndexTimesThree =
     [Token_Identifier ''f'', Token_LParen, Token_Integer 1, Token_RParen, Token_Plus,
      Token_Identifier ''a'', Token_LBrac, Token_Integer 2, Token_RBrac, Token_Star,
      Token_Integer 3]"

section \<open>Properties\<close>

subsection \<open>Statement execution\<close>

lemma thenE_Inr_iff:
  "thenE r f = Inr y \<longleftrightarrow> (\<exists>x. r = Inr x \<and> f x = Inr y)"
  by (cases r) auto

lemma interpret_loop_append:
  "interpret_loop n I Env (xs @ ys) =
     thenE (interpret_loop n I Env xs) (\<lambda>Env1. interpret_loop n I Env1 ys)"
proof (induction xs arbitrary: Env)
  case Nil
  show ?case by simp
next
  case (Cons x xs)
  show ?case
  proof (cases "executeStatement n I Env x")
    case (Inl e)
    then show ?thesis by simp
  next
    case (Inr r)
    then show ?thesis using Cons.IH by (cases r) simp
  qed
qed

text \<open>
  A block that reaches a statement with an outcome other than Normal returns that outcome and
  the environment that statement left, whatever follows the statement.
\<close>

lemma executeBlock_loop_stops:
  assumes "executeBlock_loop n I Env Res pre = Inr (Res1, Env1)"
    and "Kind Res1 = NormalStatementResult"
    and "executeStatement n I Env1 s = Inr (Res2, Env2)"
    and "Kind Res2 \<noteq> NormalStatementResult"
  shows "executeBlock_loop n I Env Res (pre @ s # post) = Inr (Res2, Env2)"
  using assms
proof (induction pre arbitrary: Env Res)
  case Nil
  then show ?case by simp
next
  case (Cons x pre)
  from Cons.prems(1) obtain Rx Ex where x: "executeStatement n I Env x = Inr (Rx, Ex)"
    by (cases "executeStatement n I Env x") auto
  show ?case
  proof (cases "Kind Rx = NormalStatementResult")
    case True
    with x Cons.prems(1) have "executeBlock_loop n I Ex Rx pre = Inr (Res1, Env1)" by simp
    from Cons.IH [OF this Cons.prems(2-4)] x True show ?thesis by simp
  next
    case False
    with x Cons.prems(1) have "Res1 = Rx" by simp
    with False Cons.prems(2) show ?thesis by simp
  qed
qed

lemma executeBlock_loop_null:
  assumes "executeBlock_loop (Suc n) I Env Res pre = Inr (Res1, Env1)"
    and "Kind Res1 = NormalStatementResult"
  shows "executeBlock_loop (Suc n) I Env Res (pre @ None # post) = Inl NullDereference"
  using assms
proof (induction pre arbitrary: Env Res)
  case Nil
  then show ?case by simp
next
  case (Cons x pre)
  from Cons.prems(1) obtain Rx Ex where x: "executeStatement (Suc n) I Env x = Inr (Rx, Ex)"
    by (cases "executeStatement (Suc n) I Env x") auto
  show ?case
  proof (cases "Kind Rx = NormalStatementResult")
    case True
    with x Cons.prems(1) have "executeBlock_loop (Suc n) I Ex Rx pre = Inr (Res1, Env1)"
      by simp
    from Cons.IH [OF this Cons.prems(2)] x True show ?thesis by simp
  next
    case False
    with x Cons.prems(1) have "Res1 = Rx" by simp
    with False Cons.prems(2) show ?thesis by simp
  qed
qed

text \<open>
  C9. The statement executor has a case that does work for expression statements, blocks,
  return statements and declaration lists only. Executing an \<^verbatim>\<open>if\<close> statement yields the
  Normal outcome and leaves the environment as it was, whatever its condition and branches
  are (neither is evaluated: the result is the same for a condition or a branch that would
  stop the process); executing a \<^verbatim>\<open>while\<close> or a \<^verbatim>\<open>for\<close> statement is a fatal runtime error.
\<close>

theorem C9_if_skipped_loops_fatal:
  "executeStatement (Suc n) I Env (Some (IfStatementAST Condition StatementThen StatementElse)) =
     Inr (ExecutionResult_new I NormalStatementResult, Env)
   \<and> Kind (ExecutionResult_new I NormalStatementResult) = NormalStatementResult
   \<and> executeStatement (Suc n) I Env (Some (WhileStatementAST Condition Statement)) =
       Inl (RuntimeError ''single declaration should not be used by user'')
   \<and> executeStatement (Suc n) I Env (Some (ForStatementAST Init Cond Post Statement)) =
       Inl (RuntimeError ''single declaration should not be used by user'')
   \<and> executeStatement (Suc n) I Env (Some (ExprStatementAST Expression)) =
       executeExprStatement n I Env Expression
   \<and> executeStatement (Suc n) I Env (Some (BlockAST StatementList)) =
       executeBlock n I Env StatementList
   \<and> executeStatement (Suc n) I Env (Some (ReturnStatementAST ReturnValueExpr)) =
       executeReturnStatement n I Env ReturnValueExpr
   \<and> executeStatement (Suc n) I Env (Some (DeclarationListAST Type DeclarationList)) =
       executeDeclarationList n I Env DeclarationList"
  by (simp add: ExecutionResult_new_def)

text \<open>
  C4 (the code at the failing input). The binary operator kind \<^verbatim>\<open>Modulo\<close> has no case in
  \<^verbatim>\<open>evaluateBinaryCalc\<close>: for all operands, int ones included, it takes the default branch,
  a fatal runtime error, while its siblings \<^verbatim>\<open>Multiply\<close> and \<^verbatim>\<open>Division\<close> go to the arithmetic
  evaluator. The parser gives \<^verbatim>\<open>%\<close> the precedence of \<^verbatim>\<open>*\<close> and \<^verbatim>\<open>/\<close>.
\<close>

theorem C4_modulo_is_fatal:
  "evaluateBinaryCalc I Modulo (IntValue a) (IntValue b) =
     Inl (RuntimeError ''unknown binary operator kind (code :4)'')
   \<and> evaluateBinaryCalc I Multiply (IntValue a) (IntValue b) =
       evaluateBinArith I Multiply (IntValue a) (IntValue b)
   \<and> evaluateBinaryCalc I Division (IntValue a) (IntValue b) =
       evaluateBinArith I Division (IntValue a) (IntValue b)
   \<and> getBinOpPrecedence (p\<lparr>Lexer := Token_Percent # ts\<rparr>) =
       getBinOpPrecedence (p\<lparr>Lexer := Token_Slash # ts\<rparr>)"
  by (simp add: evaluateBinaryCalc_def getBinOpPrecedence_def getTok_def)

text \<open>
  Every outcome a statement yields is Normal or Return: Break and Continue are never produced.
\<close>

lemma executeBlock_loop_kinds:
  assumes stmt: "\<And>Env s Res Env1. executeStatement n I Env s = Inr (Res, Env1) \<Longrightarrow>
      Kind Res = NormalStatementResult \<or> Kind Res = ReturnStatementResult"
    and "executeBlock_loop n I Env Res0 ss = Inr (Res, Env1)"
    and "Kind Res0 = NormalStatementResult \<or> Kind Res0 = ReturnStatementResult"
  shows "Kind Res = NormalStatementResult \<or> Kind Res = ReturnStatementResult"
  using assms(2,3)
proof (induction ss arbitrary: Env Res0)
  case Nil
  then show ?case by simp
next
  case (Cons s ss)
  from Cons.prems(1) obtain Rs Es where s: "executeStatement n I Env s = Inr (Rs, Es)"
    by (cases "executeStatement n I Env s") auto
  note k = stmt [OF s]
  show ?case
  proof (cases "Kind Rs = NormalStatementResult")
    case True
    with s Cons.prems(1) have "executeBlock_loop n I Es Rs ss = Inr (Res, Env1)" by simp
    from Cons.IH [OF this k] show ?thesis .
  next
    case False
    with s Cons.prems(1) have "Res = Rs" by simp
    with k show ?thesis by simp
  qed
qed

lemma executeDeclarationList_kind:
  "executeDeclarationList n I Env ds = Inr (Res, Env1) \<Longrightarrow> Kind Res = NormalStatementResult"
proof (induction ds arbitrary: Env)
  case Nil
  then show ?case by (auto simp: ExecutionResult_new_def)
next
  case (Cons d ds)
  then show ?case
    by (cases "executeDeclaration n I Env d") auto
qed

lemma executeStatement_kinds:
  "executeStatement n I Env s = Inr (Res, Env1) \<Longrightarrow>
     Kind Res = NormalStatementResult \<or> Kind Res = ReturnStatementResult"
proof (induction n arbitrary: Env s Res Env1 rule: less_induct)
  case (less n)
  from less.prems obtain m where n: "n = Suc m" by (cases n) auto
  from less.prems n obtain st where s: "s = Some st" by (cases s) auto
  show ?case
  proof (cases st)
    case (ExprStatementAST e)
    with less.prems n s have "executeExprStatement m I Env e = Inr (Res, Env1)" by simp
    then show ?thesis
      by (cases m) (auto simp: thenE_Inr_iff ExecutionResult_new_def)
  next
    case (BlockAST ss)
    with less.prems n s have b: "executeBlock m I Env ss = Inr (Res, Env1)" by simp
    then obtain k where m: "m = Suc k" by (cases m) auto
    from b m obtain E where
      l: "executeBlock_loop k I ([] # Env) (ExecutionResult_new I NormalStatementResult) ss =
            Inr (Res, E)"
      by (auto simp: thenE_Inr_iff)
    have "k < n" using n m by simp
    from executeBlock_loop_kinds [OF less.IH [OF this] l] show ?thesis
      by (simp add: ExecutionResult_new_def)
  next
    case (IfStatementAST c t e)
    with less.prems n s show ?thesis by (auto simp: ExecutionResult_new_def)
  next
    case (ReturnStatementAST r)
    with less.prems n s have "executeReturnStatement m I Env r = Inr (Res, Env1)" by simp
    then show ?thesis
      by (cases m; cases r) (auto simp: thenE_Inr_iff ExecutionResult_new_def)
  next
    case (DeclarationListAST T ds)
    with less.prems n s have "executeDeclarationList m I Env ds = Inr (Res, Env1)" by simp
    then show ?thesis by (simp add: executeDeclarationList_kind)
  qed (use less.prems n s in auto)
qed

text \<open>
  C2 (the code at the failing input). In the \<^verbatim>\<open>switch\<close> of \<^verbatim>\<open>executeStatement\<close> the labels of
  the \<^verbatim>\<open>break\<close> and of the \<^verbatim>\<open>continue\<close> statement are empty and run into the body of the
  label of a single declaration. So executing a \<^verbatim>\<open>break\<close> or a \<^verbatim>\<open>continue\<close> statement stops
  the process with the message about a single declaration, and no statement ever yields the
  Break or the Continue outcome, the two outcomes that \<^verbatim>\<open>interpret\<close> names in its own message
  and for whose statements the parser builds nodes. The other half of the claim is what the
  code does: a block stops at the first statement whose outcome is not Normal and returns that
  outcome unchanged, whatever statements follow, and so does the statement that is the block.
\<close>

theorem C2_break_fatal_block_propagates:
  "executeStatement (Suc n) I Env (Some BreakStatementAST) =
     Inl (RuntimeError ''single declaration should not be used by user'')
   \<and> executeStatement (Suc n) I Env (Some ContinueStatementAST) =
       Inl (RuntimeError ''single declaration should not be used by user'')
   \<and> (\<forall>s Res Env1. executeStatement n I Env s = Inr (Res, Env1) \<longrightarrow>
         Kind Res \<noteq> BreakStatementResult \<and> Kind Res \<noteq> ContinueStatementResult)
   \<and> (\<forall>pre s post Res1 Env1 Res2 Env2.
         executeBlock_loop n I ([] # Env) (ExecutionResult_new I NormalStatementResult) pre =
           Inr (Res1, Env1) \<and>
         Kind Res1 = NormalStatementResult \<and>
         executeStatement n I Env1 s = Inr (Res2, Env2) \<and>
         Kind Res2 \<noteq> NormalStatementResult \<longrightarrow>
         executeBlock (Suc n) I Env (pre @ s # post) = Inr (Res2, tl Env2) \<and>
         executeStatement (Suc (Suc n)) I Env (Some (BlockAST (pre @ s # post))) =
           Inr (Res2, tl Env2))"
proof (intro conjI allI impI)
  fix s Res Env1
  assume "executeStatement n I Env s = Inr (Res, Env1)"
  from executeStatement_kinds [OF this]
  show "Kind Res \<noteq> BreakStatementResult" and "Kind Res \<noteq> ContinueStatementResult"
    by auto
next
  fix pre s post Res1 Env1 Res2 Env2
  assume h: "executeBlock_loop n I ([] # Env) (ExecutionResult_new I NormalStatementResult) pre =
           Inr (Res1, Env1) \<and>
         Kind Res1 = NormalStatementResult \<and>
         executeStatement n I Env1 s = Inr (Res2, Env2) \<and>
         Kind Res2 \<noteq> NormalStatementResult"
  then have "executeBlock_loop n I ([] # Env) (ExecutionResult_new I NormalStatementResult)
      (pre @ s # post) = Inr (Res2, Env2)"
    by (intro executeBlock_loop_stops [where ?Res1.0 = Res1 and ?Env1.0 = Env1]) simp_all
  then show b: "executeBlock (Suc n) I Env (pre @ s # post) = Inr (Res2, tl Env2)"
    by simp
  then show "executeStatement (Suc (Suc n)) I Env (Some (BlockAST (pre @ s # post))) =
           Inr (Res2, tl Env2)"
    by simp
qed simp_all

text \<open>
  A block of a \<^verbatim>\<open>return 1;\<close> followed by the use of an undefined variable: the block
  returns 1 and the second statement is not executed.
\<close>

theorem C2_block_return_witness:
  "executeStatement 5 bareInterpreter [[]]
     (Some (BlockAST [Some (ReturnStatementAST (Some (IntAST 1))),
                      Some (ExprStatementAST (IdentifierAST ''x''))])) =
   Inr (\<lparr>Kind = ReturnStatementResult, ReturnValue = IntValue 1\<rparr>, [[]])"
proof -
  have e: "executeStatement 3 bareInterpreter [[], []]
      (Some (ReturnStatementAST (Some (IntAST 1)))) =
      Inr (\<lparr>Kind = ReturnStatementResult, ReturnValue = IntValue 1\<rparr>, [[], []])"
    by code_simp
  have "\<forall>pre s post Res1 Env1 Res2 Env2.
         executeBlock_loop 3 bareInterpreter ([] # [[]])
           (ExecutionResult_new bareInterpreter NormalStatementResult) pre =
           Inr (Res1, Env1) \<and>
         Kind Res1 = NormalStatementResult \<and>
         executeStatement 3 bareInterpreter Env1 s = Inr (Res2, Env2) \<and>
         Kind Res2 \<noteq> NormalStatementResult \<longrightarrow>
         executeBlock (Suc 3) bareInterpreter [[]] (pre @ s # post) = Inr (Res2, tl Env2) \<and>
         executeStatement (Suc (Suc 3)) bareInterpreter [[]] (Some (BlockAST (pre @ s # post))) =
           Inr (Res2, tl Env2)"
    using C2_break_fatal_block_propagates [of 3 bareInterpreter "[[]]"] by blast
  from this [rule_format, of "[]" "ExecutionResult_new bareInterpreter NormalStatementResult"
      "[[], []]" "Some (ReturnStatementAST (Some (IntAST 1)))"
      "\<lparr>Kind = ReturnStatementResult, ReturnValue = IntValue 1\<rparr>" "[[], []]"
      "[Some (ExprStatementAST (IdentifierAST ''x''))]"] e
  show ?thesis
    by (simp add: ExecutionResult_new_def eval_nat_numeral)
qed

subsection \<open>Calls of user functions\<close>

lemma bindArguments_mismatch:
  assumes "length Paras = length Args"
    and "\<exists>i<length Args. ValueType (Args ! i) \<noteq> Para_getType (Paras ! i)"
  shows "\<exists>msg. bindArguments I FName Paras Args FuncEnv = Inl (RuntimeError msg)"
  using assms
proof (induction Paras Args arbitrary: FuncEnv rule: list_induct2)
  case Nil
  then show ?case by simp
next
  case (Cons Para Paras Argument Args)
  show ?case
  proof (cases "Para_getType Para = ValueType Argument")
    case False
    then show ?thesis by simp
  next
    case True
    from Cons.prems obtain i where i: "i < Suc (length Args)"
      "ValueType ((Argument # Args) ! i) \<noteq> Para_getType ((Para # Paras) ! i)"
      by auto
    with True obtain j where "i = Suc j" by (cases i) auto
    with i have "\<exists>j<length Args. ValueType (Args ! j) \<noteq> Para_getType (Paras ! j)"
      by auto
    from Cons.IH [OF this] True show ?thesis by simp
  qed
qed

text \<open>
  C5. When a user function is called with a number of arguments other than its number of
  parameters, or with an argument whose runtime type is not its parameter's declared type, the
  call is a fatal runtime error. The error is the same whatever the body of the function is
  and whatever depth of calls is left for it, none included: the body is not executed.
\<close>

theorem C5_call_rejects_arguments:
  assumes "length Args \<noteq> length Paras \<or>
           (\<exists>i<length Args. ValueType (Args ! i) \<noteq> Para_getType (Paras ! i))"
  shows "\<exists>msg. \<forall>n Body.
           callUserFunction (Suc n) I TopLevelEnv
             (FunctionDefinitionAST Name RetType Paras Body) Args = Inl (RuntimeError msg)"
proof (cases "length Args = length Paras")
  case False
  then show ?thesis by simp
next
  case True
  with assms have "\<exists>i<length Args. ValueType (Args ! i) \<noteq> Para_getType (Paras ! i)"
    by simp
  from bindArguments_mismatch [OF True [symmetric] this, of I Name "[]"]
  obtain msg where "bindArguments I Name Paras Args [] = Inl (RuntimeError msg)" ..
  with True show ?thesis by simp
qed

text \<open>An int argument for a double parameter is rejected: there is no widening in a call.\<close>

theorem C5_int_for_double_witness:
  "(\<exists>i<length [IntValue 3].
      ValueType ([IntValue 3] ! i) \<noteq> Para_getType ([Parameter ''x'' DoubleType] ! i))
   \<and> (\<exists>msg. \<forall>n Body.
         callUserFunction (Suc n) bareInterpreter []
           (FunctionDefinitionAST ''f'' DoubleType [Parameter ''x'' DoubleType] Body)
           [IntValue 3] = Inl (RuntimeError msg))"
proof -
  have h: "\<exists>i<length [IntValue 3].
      ValueType ([IntValue 3] ! i) \<noteq> Para_getType ([Parameter ''x'' DoubleType] ! i)"
    by simp
  then have "length [IntValue 3] \<noteq> length [Parameter ''x'' DoubleType] \<or>
      (\<exists>i<length [IntValue 3].
        ValueType ([IntValue 3] ! i) \<noteq> Para_getType ([Parameter ''x'' DoubleType] ! i))"
    by blast
  from C5_call_rejects_arguments [OF this] h show ?thesis by blast
qed

subsection \<open>Declarations\<close>

text \<open>
  C6. The claim is the spec's sentence on the type of an initializer. The spec puts two guards
  before it, and so does the code: redeclaring a name of the current scope is fatal whatever
  the types are, and so is the declaration of an array. For a declaration with an initializer
  that passes both guards, once the initializer has its value, execution succeeds exactly when
  the value's type is the declared type, or the declared type is double and the value is an
  int, in which case the int widened to double is what is stored; any other mismatch is a
  fatal runtime error.
\<close>

theorem C6_declaration_type_check:
  "(\<not> contains Env Name \<and> evaluateExpression n I Env Init = Inr (Val, E1 # Outer1) \<longrightarrow>
      (ValueType Val = T \<longrightarrow>
         executeDeclaration (Suc n) I Env (DeclarationAST Name T (Some Init) []) =
           Inr (ExecutionResult_new I NormalStatementResult,
                fst (emplace E1 Name Val) # Outer1))
      \<and> (T = DoubleType \<and> ValueType Val = IntType \<longrightarrow>
         executeDeclaration (Suc n) I Env (DeclarationAST Name T (Some Init) []) =
           Inr (ExecutionResult_new I NormalStatementResult,
                fst (emplace E1 Name (widen Val)) # Outer1)
         \<and> (\<exists>i. Val = IntValue i \<and> widen Val = DoubleValue (of_int i)))
      \<and> (ValueType Val \<noteq> T \<and> \<not> (T = DoubleType \<and> ValueType Val = IntType) \<longrightarrow>
         executeDeclaration (Suc n) I Env (DeclarationAST Name T (Some Init) []) =
           Inl (RuntimeError (''variable `'' @ Name @ ''' is declared to be '' @
                  TypeToStr I T @ '', but is initialized to be '' @
                  TypeToStr I (ValueType Val)))))
   \<and> (contains Env Name \<longrightarrow>
        executeDeclaration (Suc n) I Env (DeclarationAST Name T Initializer CountExprList) =
          Inl (RuntimeError (''variable `'' @ Name @ ''' is already defined in current scope'')))
   \<and> (\<not> contains Env Name \<and> CountExprList \<noteq> [] \<longrightarrow>
        executeDeclaration (Suc n) I Env (DeclarationAST Name T Initializer CountExprList) =
          Inl (RuntimeError ''unimplemented!''))"
proof (intro conjI impI)
  assume h: "\<not> contains Env Name \<and> evaluateExpression n I Env Init = Inr (Val, E1 # Outer1)"
  {
    assume "ValueType Val = T"
    with h show "executeDeclaration (Suc n) I Env (DeclarationAST Name T (Some Init) []) =
           Inr (ExecutionResult_new I NormalStatementResult,
                fst (emplace E1 Name Val) # Outer1)"
      by (simp add: Decl_isArray_def VarMap_emplace_def)
  }
  {
    assume w: "T = DoubleType \<and> ValueType Val = IntType"
    with h show "executeDeclaration (Suc n) I Env (DeclarationAST Name T (Some Init) []) =
           Inr (ExecutionResult_new I NormalStatementResult,
                fst (emplace E1 Name (widen Val)) # Outer1)"
      by (simp add: Decl_isArray_def isInt_def VarMap_emplace_def)
    from w show "\<exists>i. Val = IntValue i \<and> widen Val = DoubleValue (of_int i)"
      by (cases Val) simp_all
  }
  {
    assume "ValueType Val \<noteq> T \<and> \<not> (T = DoubleType \<and> ValueType Val = IntType)"
    with h show "executeDeclaration (Suc n) I Env (DeclarationAST Name T (Some Init) []) =
           Inl (RuntimeError (''variable `'' @ Name @ ''' is declared to be '' @
                  TypeToStr I T @ '', but is initialized to be '' @
                  TypeToStr I (ValueType Val)))"
      by (auto simp: Decl_isArray_def isInt_def)
  }
next
  assume "contains Env Name"
  then show "executeDeclaration (Suc n) I Env (DeclarationAST Name T Initializer CountExprList) =
          Inl (RuntimeError (''variable `'' @ Name @ ''' is already defined in current scope''))"
    by simp
next
  assume "\<not> contains Env Name \<and> CountExprList \<noteq> []"
  then show "executeDeclaration (Suc n) I Env (DeclarationAST Name T Initializer CountExprList) =
          Inl (RuntimeError ''unimplemented!'')"
    by (simp add: Decl_isArray_def)
qed

text \<open>
  In an empty scope \<^verbatim>\<open>double y = 3;\<close> binds \<open>y\<close> to the double 3 and \<^verbatim>\<open>int y = 3;\<close> to
  the int 3, and \<^verbatim>\<open>int y = 3.0;\<close> stops the process; so do \<^verbatim>\<open>bool b = true;\<close> where \<open>b\<close>
  is defined already, and the array \<^verbatim>\<open>string s[2];\<close>.
\<close>

theorem C6_widening_witness:
  "\<not> contains [[]] ''y''
   \<and> evaluateExpression 1 bareInterpreter [[]] (IntAST 3) = Inr (IntValue 3, [] # [])
   \<and> executeDeclaration 2 bareInterpreter [[]]
        (DeclarationAST ''y'' DoubleType (Some (IntAST 3)) []) =
      Inr (\<lparr>Kind = NormalStatementResult, ReturnValue = VoidValue\<rparr>,
           [[(''y'', DoubleValue 3)]])
   \<and> executeDeclaration 2 bareInterpreter [[]]
        (DeclarationAST ''y'' IntType (Some (IntAST 3)) []) =
      Inr (\<lparr>Kind = NormalStatementResult, ReturnValue = VoidValue\<rparr>,
           [[(''y'', IntValue 3)]])
   \<and> evaluateExpression 1 bareInterpreter [[]] (DoubleAST 3) = Inr (DoubleValue 3, [] # [])
   \<and> executeDeclaration 2 bareInterpreter [[]]
        (DeclarationAST ''y'' IntType (Some (DoubleAST 3)) []) =
      Inl (RuntimeError ''variable `y' is declared to be int, but is initialized to be double'')
   \<and> contains [[(''b'', BoolValue False)]] ''b''
   \<and> executeDeclaration 2 bareInterpreter [[(''b'', BoolValue False)]]
        (DeclarationAST ''b'' BoolType (Some (BoolAST True)) []) =
      Inl (RuntimeError ''variable `b' is already defined in current scope'')
   \<and> executeDeclaration 2 bareInterpreter [[]]
        (DeclarationAST ''s'' StringType None [IntAST 2]) =
      Inl (RuntimeError ''unimplemented!'')"
proof -
  have c: "\<not> contains [[]] ''y''"
    by (simp add: contains_def)
  have e: "evaluateExpression 1 bareInterpreter [[]] (IntAST 3) = Inr (IntValue 3, [] # [])"
    by code_simp
  have r: "executeDeclaration (Suc 1) bareInterpreter [[]]
        (DeclarationAST ''y'' DoubleType (Some (IntAST 3)) []) =
      Inr (ExecutionResult_new bareInterpreter NormalStatementResult,
           fst (emplace [] ''y'' (widen (IntValue 3))) # [])"
    using C6_declaration_type_check [where Env = "[[]]" and Name = "''y''" and n = 1
        and I = bareInterpreter and Init = "IntAST 3" and Val = "IntValue 3" and ?E1.0 = "[]"
        and ?Outer1.0 = "[]" and T = DoubleType] c e
    by (simp del: executeDeclaration.simps evaluateExpression.simps)
  have ri: "executeDeclaration (Suc 1) bareInterpreter [[]]
        (DeclarationAST ''y'' IntType (Some (IntAST 3)) []) =
      Inr (ExecutionResult_new bareInterpreter NormalStatementResult,
           fst (emplace [] ''y'' (IntValue 3)) # [])"
    using C6_declaration_type_check [where Env = "[[]]" and Name = "''y''" and n = 1
        and I = bareInterpreter and Init = "IntAST 3" and Val = "IntValue 3" and ?E1.0 = "[]"
        and ?Outer1.0 = "[]" and T = IntType] c e
    by (simp del: executeDeclaration.simps evaluateExpression.simps)
  have ed: "evaluateExpression 1 bareInterpreter [[]] (DoubleAST 3) =
      Inr (DoubleValue 3, [] # [])"
    by code_simp
  have rd: "executeDeclaration (Suc 1) bareInterpreter [[]]
        (DeclarationAST ''y'' IntType (Some (DoubleAST 3)) []) =
      Inl (RuntimeError (''variable `'' @ ''y'' @ ''' is declared to be '' @
             TypeToStr bareInterpreter IntType @ '', but is initialized to be '' @
             TypeToStr bareInterpreter (ValueType (DoubleValue 3))))"
    using C6_declaration_type_check [where Env = "[[]]" and Name = "''y''" and n = 1
        and I = bareInterpreter and Init = "DoubleAST 3" and Val = "DoubleValue 3"
        and ?E1.0 = "[]" and ?Outer1.0 = "[]" and T = IntType] c ed
    by (simp del: executeDeclaration.simps evaluateExpression.simps)
  have mi: "fst (emplace [] ''y'' (IntValue 3)) = [(''y'', IntValue 3)]"
    by (simp add: emplace_def)
  have ts: "TypeToStr bareInterpreter IntType = ''int''"
    "TypeToStr bareInterpreter (ValueType (DoubleValue 3)) = ''double''"
    by (simp_all add: bareInterpreter_def)
  have v: "ExecutionResult_new bareInterpreter NormalStatementResult =
      \<lparr>Kind = NormalStatementResult, ReturnValue = VoidValue\<rparr>"
    by (simp add: ExecutionResult_new_def bareInterpreter_def)
  have m: "fst (emplace [] ''y'' (widen (IntValue 3))) = [(''y'', DoubleValue 3)]"
    by (simp add: emplace_def)
  have b: "contains [[(''b'', BoolValue False)]] ''b''"
    by (simp add: contains_def)
  have g: "executeDeclaration (Suc 1) bareInterpreter [[(''b'', BoolValue False)]]
        (DeclarationAST ''b'' BoolType (Some (BoolAST True)) []) =
      Inl (RuntimeError (''variable `'' @ ''b'' @ ''' is already defined in current scope''))"
    using C6_declaration_type_check [where Env = "[[(''b'', BoolValue False)]]"
        and Name = "''b''" and n = 1 and I = bareInterpreter and T = BoolType
        and Initializer = "Some (BoolAST True)" and CountExprList = "[]"] b
    by (simp del: executeDeclaration.simps evaluateExpression.simps)
  have s: "\<not> contains [[]] ''s''"
    by (simp add: contains_def)
  have a: "executeDeclaration (Suc 1) bareInterpreter [[]]
        (DeclarationAST ''s'' StringType None [IntAST 2]) =
      Inl (RuntimeError ''unimplemented!'')"
    using C6_declaration_type_check [where Env = "[[]]" and Name = "''s''" and n = 1
        and I = bareInterpreter and T = StringType and Initializer = None
        and CountExprList = "[IntAST 2]"] s
    by (simp del: executeDeclaration.simps evaluateExpression.simps)
  from r ri rd mi ts ed v m c e b g a show ?thesis
    by (simp del: executeDeclaration.simps evaluateExpression.simps add: numeral_2_eq_2)
qed

subsection \<open>Duplicate definitions\<close>

text \<open>
  C1 (the code at the failing input). A second definition of a function name, or of an
  infix-operator symbol, is parsed without an error and with the warning that it overrides
  another; but \<^verbatim>\<open>emplace\<close> leaves an entry that exists as it is, so the function table,
  the precedence table and the infix-operator table all keep the first definition.
\<close>

theorem C1_first_definition_kept:
  "parse 20 A (CMMParser_init twoFunctions) =
     Ok \<lparr>Lexer = [],
         ErrorList = [(ErrorKind_Warning, ''function `f' overrides another one'')],
         BinOpPrecedence = [], InfixOpDefinition = [],
         FunctionDefinition =
           [(''f'', FunctionDefinitionAST ''f'' IntType []
                     (Some (BlockAST [Some (ReturnStatementAST (Some (IntAST 1)))])))],
         TopLevelBlock = []\<rparr> ()
   \<and> parse 20 A (CMMParser_init twoInfixOps) =
     Ok \<lparr>Lexer = [],
         ErrorList = [(ErrorKind_Warning, ''infix operator <> overrides another'')],
         BinOpPrecedence = [(''<>'', 5)],
         InfixOpDefinition =
           [(''<>'', InfixOpDefinitionAST ''<>'' ''a'' ''b''
               (Some (ExprStatementAST (BinaryOperatorAST_tryFoldBinOp A Token_Minus
                  (IdentifierAST ''a'') (IdentifierAST ''b'')))))],
         FunctionDefinition = [], TopLevelBlock = []\<rparr> ()"
  unfolding twoFunctions_def twoInfixOps_def by code_simp

subsection \<open>User-defined infix operators\<close>

text \<open>
  C3 (the code at the failing input). The parser does its part: the program parses without a
  diagnostic, \<^verbatim>\<open><>\<close> is registered with precedence 5 and its body is stored, and
  \<^verbatim>\<open>10 <> 3 <> 1\<close> becomes the application of \<^verbatim>\<open><>\<close> to the application of \<^verbatim>\<open><>\<close> to 10 and
  3, and to 1 (left to right at equal precedence). The evaluator misses the case: the
  \<^verbatim>\<open>switch\<close> of \<^verbatim>\<open>evaluateExpression\<close> has no label for the kind of an infix-operator
  application, so evaluating one, this one included, takes the \<^verbatim>\<open>default\<close> branch and stops
  the process with ``unknown expression kind''; the stored body is never read.
\<close>

theorem C3_infix_parsed_not_evaluated:
  "parse 20 A (CMMParser_init infixProgram) =
     Ok \<lparr>Lexer = [], ErrorList = [],
         BinOpPrecedence = [(''<>'', 5)],
         InfixOpDefinition =
           [(''<>'', InfixOpDefinitionAST ''<>'' ''a'' ''b''
               (Some (ExprStatementAST (BinaryOperatorAST_tryFoldBinOp A Token_Minus
                  (IdentifierAST ''a'') (IdentifierAST ''b'')))))],
         FunctionDefinition = [],
         TopLevelBlock =
           [Some (ExprStatementAST
              (InfixOpExprAST ''<>'' (InfixOpExprAST ''<>'' (IntAST 10) (IntAST 3))
                 (IntAST 1)))]\<rparr> ()
   \<and> evaluateExpression (Suc n) I Env (InfixOpExprAST Symbol LHS RHS) =
       Inl (RuntimeError ''unknown expression kind'')
   \<and> interpretProgram (Suc (Suc (Suc n)))
       (I\<lparr>Program := [Some (ExprStatementAST
              (InfixOpExprAST ''<>'' (InfixOpExprAST ''<>'' (IntAST 10) (IntAST 3))
                 (IntAST 1)))]\<rparr>) TopLevelEnv =
       Inl (RuntimeError ''unknown expression kind'')"
proof (intro conjI)
  show "parse 20 A (CMMParser_init infixProgram) =
     Ok \<lparr>Lexer = [], ErrorList = [],
         BinOpPrecedence = [(''<>'', 5)],
         InfixOpDefinition =
           [(''<>'', InfixOpDefinitionAST ''<>'' ''a'' ''b''
               (Some (ExprStatementAST (BinaryOperatorAST_tryFoldBinOp A Token_Minus
                  (IdentifierAST ''a'') (IdentifierAST ''b'')))))],
         FunctionDefinition = [],
         TopLevelBlock =
           [Some (ExprStatementAST
              (InfixOpExprAST ''<>'' (InfixOpExprAST ''<>'' (IntAST 10) (IntAST 3))
                 (IntAST 1)))]\<rparr> ()"
    unfolding infixProgram_def by code_simp
qed (simp_all add: interpretProgram_def)

subsection \<open>Assignment\<close>


subsection \<open>Empty statements\<close>

text \<open>
  C10, as the code has it. Parsing a lone \<^verbatim>\<open>;\<close> emits the warning ``empty statement'' and
  yields the null statement pointer, which the top-level list and an enclosing block append
  to their statements. Executing a null statement pointer dereferences it. So a run
  dereferences a null pointer when it reaches the \<^verbatim>\<open>;\<close>: in the top-level list after the
  statements before it ended normally, and in a block that is executed after the statements
  before it in the block ended normally.
\<close>

theorem C10_empty_statement_null:
  "(getTok p = Token_Semicolon \<longrightarrow>
      parseStatement (Suc n) A p = Ok (Lex (Warning ''empty statement'' p)) None
      \<and> parseTopLevel (Suc n) A p =
          Ok ((Lex (Warning ''empty statement'' p))
                \<lparr>TopLevelBlock := TopLevelBlock p @ [None]\<rparr>) ()
      \<and> parseBlock_loop (Suc (Suc n)) A StatementList p =
          parseBlock_loop (Suc n) A (StatementList @ [None])
            (Lex (Warning ''empty statement'' p)))
   \<and> executeStatement (Suc m) I Env None = Inl NullDereference
   \<and> (interpret_loop (Suc m) I Env pre = Inr Env1 \<longrightarrow>
        interpret_loop (Suc m) I Env (pre @ None # post) = Inl NullDereference)
   \<and> (executeBlock_loop (Suc m) I ([] # Env) (ExecutionResult_new I NormalStatementResult) pre =
          Inr (Res1, Env2) \<and> Kind Res1 = NormalStatementResult \<longrightarrow>
        executeBlock (Suc (Suc m)) I Env (pre @ None # post) = Inl NullDereference)"
proof (intro conjI impI)
  assume "getTok p = Token_Semicolon"
  then show s: "parseStatement (Suc n) A p = Ok (Lex (Warning ''empty statement'' p)) None"
    by (simp add: parseEmptyStatement_def)
  from \<open>getTok p = Token_Semicolon\<close>
  show "parseTopLevel (Suc n) A p =
          Ok ((Lex (Warning ''empty statement'' p))
                \<lparr>TopLevelBlock := TopLevelBlock p @ [None]\<rparr>) ()"
    by (simp add: parseTopLevel_def parseEmptyStatement_def Lex_def Warning_def)
  from \<open>getTok p = Token_Semicolon\<close> s
  show "parseBlock_loop (Suc (Suc n)) A StatementList p =
          parseBlock_loop (Suc n) A (StatementList @ [None])
            (Lex (Warning ''empty statement'' p))"
    by (simp del: parseStatement.simps)
next
  assume "interpret_loop (Suc m) I Env pre = Inr Env1"
  then show "interpret_loop (Suc m) I Env (pre @ None # post) = Inl NullDereference"
    by (simp add: interpret_loop_append)
next
  assume "executeBlock_loop (Suc m) I ([] # Env)
      (ExecutionResult_new I NormalStatementResult) pre = Inr (Res1, Env2) \<and>
      Kind Res1 = NormalStatementResult"
  then have "executeBlock_loop (Suc m) I ([] # Env)
      (ExecutionResult_new I NormalStatementResult) (pre @ None # post) = Inl NullDereference"
    by (intro executeBlock_loop_null [where ?Res1.0 = Res1 and ?Env1.0 = Env2]) simp_all
  then show "executeBlock (Suc (Suc m)) I Env (pre @ None # post) = Inl NullDereference"
    by simp
qed simp

text \<open>
  \<^verbatim>\<open>int x = 1; ;\<close> the declaration ends normally, then the run reaches the null statement.
\<close>

theorem C10_top_level_witness:
  "parse 20 nodeASTLib (CMMParser_init emptyAtTopLevel) =
     Ok \<lparr>Lexer = [], ErrorList = [(ErrorKind_Warning, ''empty statement'')],
         BinOpPrecedence = [], InfixOpDefinition = [], FunctionDefinition = [],
         TopLevelBlock =
           [Some (DeclarationListAST IntType
                    [DeclarationAST ''x'' IntType (Some (IntAST 1)) []]),
            None]\<rparr> ()
   \<and> interpret_loop (Suc 4) bareInterpreter [[]]
       [Some (DeclarationListAST IntType [DeclarationAST ''x'' IntType (Some (IntAST 1)) []])] =
       Inr [[(''x'', IntValue 1)]]
   \<and> interpret_loop (Suc 4) bareInterpreter [[]]
       ([Some (DeclarationListAST IntType
                 [DeclarationAST ''x'' IntType (Some (IntAST 1)) []])] @ None # []) =
       Inl NullDereference"
proof -
  have p: "parse 20 nodeASTLib (CMMParser_init emptyAtTopLevel) =
     Ok \<lparr>Lexer = [], ErrorList = [(ErrorKind_Warning, ''empty statement'')],
         BinOpPrecedence = [], InfixOpDefinition = [], FunctionDefinition = [],
         TopLevelBlock =
           [Some (DeclarationListAST IntType
                    [DeclarationAST ''x'' IntType (Some (IntAST 1)) []]),
            None]\<rparr> ()"
    unfolding emptyAtTopLevel_def by code_simp
  have r: "interpret_loop (Suc 4) bareInterpreter [[]]
       [Some (DeclarationListAST IntType [DeclarationAST ''x'' IntType (Some (IntAST 1)) []])] =
       Inr [[(''x'', IntValue 1)]]"
    by code_simp
  from C10_empty_statement_null
    [of "CMMParser_init [Token_Semicolon]" 0 nodeASTLib "[]" 4 bareInterpreter "[[]]"
        "[Some (DeclarationListAST IntType
            [DeclarationAST ''x'' IntType (Some (IntAST 1)) []])]"
        "[[(''x'', IntValue 1)]]" "[]"] p r
  show ?thesis by blast
qed

text \<open>
  C10 as stated fails for ``any program containing a bare \<^verbatim>\<open>;\<close>'': the \<^verbatim>\<open>;\<close> in the body of
  a function that is never called, and the \<^verbatim>\<open>;\<close> that is the branch of an \<^verbatim>\<open>if\<close>, are
  parsed into null pointers with the warning, and the program runs to its end without
  dereferencing them.
\<close>

theorem C10_unreached_counterexample:
  "(case parse 20 nodeASTLib (CMMParser_init emptyInFunction) of
      Ok p u \<Rightarrow>
        ErrorList p = [(ErrorKind_Warning, ''empty statement'')] \<and>
        FunctionDefinition p = [(''f'', FunctionDefinitionAST ''f'' VoidType []
                                         (Some (BlockAST [None])))] \<and>
        interpretProgram 20 (loadProgram bareInterpreter p) [] = Inr [[]]
    | Failed p \<Rightarrow> False
    | AssertFailed \<Rightarrow> False
    | OutOfFuel \<Rightarrow> False)
   \<and> (case parse 20 nodeASTLib (CMMParser_init emptyInIf) of
      Ok p u \<Rightarrow>
        ErrorList p = [(ErrorKind_Warning, ''empty statement'')] \<and>
        TopLevelBlock p = [Some (IfStatementAST (BoolAST True) None None)] \<and>
        interpretProgram 20 (loadProgram bareInterpreter p) [] = Inr [[]]
    | Failed p \<Rightarrow> False
    | AssertFailed \<Rightarrow> False
    | OutOfFuel \<Rightarrow> False)"
  unfolding emptyInFunction_def emptyInIf_def by code_simp


subsection \<open>Precedence and associativity\<close>

lemma int8_small: "- 128 \<le> x \<Longrightarrow> x < 128 \<Longrightarrow> int8 x = x"
  by (simp add: int8_def)

lemma getTok_Cons: "getTok (p\<lparr>Lexer := t # ts\<rparr>) = t"
  by (simp add: getTok_def)

lemma Lex_Cons: "Lex (p\<lparr>Lexer := t # ts\<rparr>) = p\<lparr>Lexer := ts\<rparr>"
  by (simp add: Lex_def)

lemma isBinaryOperator_cases:
  "isBinaryOperator t \<longleftrightarrow>
     t = Token_PipePipe \<or> t = Token_AmpAmp \<or> t = Token_Pipe \<or> t = Token_Caret \<or>
     t = Token_Amp \<or> t = Token_EqualEqual \<or> t = Token_ExclaimEqual \<or> t = Token_Less \<or>
     t = Token_LessEqual \<or> t = Token_Greater \<or> t = Token_GreaterEqual \<or>
     t = Token_LessLess \<or> t = Token_GreaterGreater \<or> t = Token_Plus \<or> t = Token_Minus \<or>
     t = Token_Star \<or> t = Token_Slash \<or> t = Token_Percent"
  by (simp add: isBinaryOperator_def binaryOperators_def)

lemma getBinOpPrecedence_operator:
  "isBinaryOperator t \<Longrightarrow> getBinOpPrecedence (p\<lparr>Lexer := t # ts\<rparr>) = Precedence_of t"
  unfolding isBinaryOperator_cases
  by (elim disjE) (simp_all add: getBinOpPrecedence_def Precedence_of_def getTok_def
      CMMParser_init_def)

lemma Precedence_of_bounds:
  "isBinaryOperator t \<Longrightarrow> 2 \<le> Precedence_of t \<and> Precedence_of t \<le> 11"
  unfolding isBinaryOperator_cases
  by (elim disjE) (simp_all add: getBinOpPrecedence_def Precedence_of_def getTok_def
      CMMParser_init_def)

lemma operator_is_not:
  "isBinaryOperator t \<Longrightarrow> t \<noteq> Token_Equal \<and> \<not> isInfixOp t \<and> followsOperand t"
  unfolding isBinaryOperator_cases
  by (elim disjE) (simp_all add: isInfixOp_def followsOperand_def)

text \<open>Putting a tree together from its spine keeps what the tree is read as.\<close>

lemma firstOperand_plugs: "firstOperand (plugs L sp) = firstOperand L"
  by (induction L sp rule: plugs.induct) simp_all

lemma operatorOperands_plugs:
  "operatorOperands (plugs L sp) = operatorOperands L @ spineOperands sp"
  by (induction L sp rule: plugs.induct) simp_all

lemma build_plugs: "build A (plugs L sp) = plugsAST A (build A L) sp"
  by (induction L sp rule: plugs.induct) simp_all

lemma rootPrec_plugs:
  "standardSpine E sp \<Longrightarrow> E \<le> rootPrec L \<Longrightarrow> E \<le> rootPrec (plugs L sp)"
  by (induction L sp rule: plugs.induct) simp_all

lemma standard_plugs:
  "standardSpine E sp \<Longrightarrow> standard L \<Longrightarrow>
   (case sp of [] \<Rightarrow> True | (opr, R) # sp2 \<Rightarrow> Precedence_of opr \<le> rootPrec L) \<Longrightarrow>
   standard (plugs L sp)"
proof (induction L sp rule: plugs.induct)
  case (1 L)
  then show ?case by simp
next
  case (2 L opr R sp)
  have "standard (plugs (Node opr L R) sp)"
  proof (rule "2.IH")
    show "standardSpine E sp" using "2.prems"(1) by simp
    show "standard (Node opr L R)" using "2.prems" by simp
    show "case sp of [] \<Rightarrow> True
          | (opr2, R2) # sp2 \<Rightarrow> Precedence_of opr2 \<le> rootPrec (Node opr L R)"
      using "2.prems"(1) by (cases sp) auto
  qed
  then show ?case by simp
qed

lemma standard_plugs_Leaf:
  assumes "standardSpine E sp"
  shows "standard (plugs (Leaf a) sp)"
proof (rule standard_plugs [OF assms])
  show "standard (Leaf a)" by simp
  show "case sp of [] \<Rightarrow> True | (opr2, R2) # sp2 \<Rightarrow> Precedence_of opr2 \<le> rootPrec (Leaf a)"
  proof (cases sp)
    case Nil
    then show ?thesis by simp
  next
    case (Cons z sp')
    obtain opr2 R2 where "z = (opr2, R2)" by (cases z)
    with Cons assms Precedence_of_bounds [of opr2] show ?thesis by simp
  qed
qed

lemma operatorOperandTokens_append:
  "operatorOperandTokens (xs @ ys) = operatorOperandTokens xs @ operatorOperandTokens ys"
  by (induction xs rule: operatorOperandTokens.induct) simp_all

lemma tokens_of_operands:
  "tokens_of T = fst (firstOperand T) @ operatorOperandTokens (operatorOperands T)"
  by (induction T) (simp_all add: operatorOperandTokens_append)

lemma operatorOperandTokens_follow:
  assumes "\<forall>(opr, b)\<in>set oas. isBinaryOperator opr \<and> P b"
    and "followsOperand (getTok (p\<lparr>Lexer := rest\<rparr>))"
  shows "followsOperand (getTok (p\<lparr>Lexer := operatorOperandTokens oas @ rest\<rparr>))"
proof (cases oas)
  case Nil
  with assms show ?thesis by simp
next
  case (Cons x oas')
  obtain opr b where "x = (opr, b)" by (cases x)
  with Cons assms(1) operator_is_not [of opr] show ?thesis
    by (simp add: getTok_Cons)
qed

text \<open>
  The loop of \<^verbatim>\<open>parseBinOpRHS\<close>, started with the expression \<open>Res\<close> at minimal precedence
  \<open>E\<close> before operators alternating with operands: it consumes the operators down to the first
  one that binds less tightly than \<open>E\<close>, and what it returns is \<open>Res\<close> with the operators of a
  standard spine applied in turn.
\<close>

lemma parseBinOpRHS_loop_spine:
  assumes stop: "getBinOpPrecedence (p\<lparr>Lexer := rest\<rparr>) < 1"
    and f: "followsOperand (getTok (p\<lparr>Lexer := rest\<rparr>))"
  shows "(\<forall>(opr, b)\<in>set oas. isBinaryOperator opr \<and> parsesOperand K A p b) \<Longrightarrow> 1 \<le> E \<Longrightarrow>
     2 * length oas + 1 + K \<le> n \<Longrightarrow>
     \<exists>sp oas1 oas2. oas = oas1 @ oas2 \<and> spineOperands sp = oas1 \<and>
       standardSpine E sp \<and> (sp \<noteq> [] \<longrightarrow> fst (hd sp) = fst (hd oas)) \<and>
       (oas2 = [] \<or> Precedence_of (fst (hd oas2)) < E) \<and>
       parseBinOpRHS_loop n A E Res (p\<lparr>Lexer := operatorOperandTokens oas @ rest\<rparr>) =
         Ok (p\<lparr>Lexer := operatorOperandTokens oas2 @ rest\<rparr>) (plugsAST A Res sp)"
proof (induction n arbitrary: oas E Res rule: less_induct)
  case (less n)
  note wf = less.prems(1) and E1 = less.prems(2) and fuel = less.prems(3)
  from fuel obtain m where n: "n = Suc m" by (cases n) auto
  show ?case
  proof (cases oas)
    case Nil
    have "parseBinOpRHS_loop (Suc m) A E Res (p\<lparr>Lexer := rest\<rparr>) = Ok (p\<lparr>Lexer := rest\<rparr>) Res"
      using stop E1 by simp
    with Nil n show ?thesis
      by (intro exI [of _ "[]"]) simp
  next
    case (Cons x oas')
    obtain opr a where x: "x = (opr, a)" by (cases x)
    from wf Cons x have opr: "isBinaryOperator opr" and a: "parsesOperand K A p a"
      and wf': "\<forall>(opr, b)\<in>set oas'. isBinaryOperator opr \<and> parsesOperand K A p b"
      by auto
    let ?q = "Precedence_of opr"
    let ?p0 = "p\<lparr>Lexer := operatorOperandTokens oas @ rest\<rparr>"
    let ?p1 = "p\<lparr>Lexer := operatorOperandTokens oas' @ rest\<rparr>"
    have tok0: "operatorOperandTokens oas @ rest =
        opr # fst a @ operatorOperandTokens oas' @ rest"
      using Cons x by simp
    have q0: "getBinOpPrecedence ?p0 = ?q"
      using opr by (simp add: tok0 getBinOpPrecedence_operator)
    have t0: "getTok ?p0 = opr"
      by (simp add: tok0 getTok_Cons)
    note qb = Precedence_of_bounds [OF opr]
    show ?thesis
    proof (cases "?q < E")
      case True
      have "parseBinOpRHS_loop (Suc m) A E Res ?p0 = Ok ?p0 Res"
        using True q0 by simp
      with n Cons x True show ?thesis
        by (intro exI [of _ "[]"] exI [of _ oas]) simp
    next
      case False
      from fuel n Cons obtain k where m: "m = Suc (Suc k)"
        by (cases m; cases "m - 1") auto
      have len: "2 * length oas' + K \<le> k"
        using fuel n m Cons by simp
      note follow = operatorOperandTokens_follow [OF wf' f]
      have "K \<le> m" using len m by simp
      with a follow have "parsePrimaryExpression m A
          (p\<lparr>Lexer := fst a @ operatorOperandTokens oas' @ rest\<rparr>) = Ok ?p1 (snd a)"
        unfolding parsesOperand_def by blast
      then have prim: "parsePrimaryExpression m A (Lex ?p0) = Ok ?p1 (snd a)"
        by (simp add: tok0 Lex_Cons)
      have rhs: "\<exists>sp1 oasL oasR. oas' = oasL @ oasR \<and>
          spineOperands sp1 = oasL \<and> standardSpine (?q + 1) sp1 \<and>
          (oasR = [] \<or> Precedence_of (fst (hd oasR)) \<le> ?q) \<and>
          (if ?q < getBinOpPrecedence ?p1
           then parseBinOpRHS m A (int8 (?q + 1)) (snd a) ?p1
           else Ok ?p1 (snd a)) =
            Ok (p\<lparr>Lexer := operatorOperandTokens oasR @ rest\<rparr>) (plugsAST A (snd a) sp1)"
      proof (cases "?q < getBinOpPrecedence ?p1")
        case False
        have "oas' = [] \<or> Precedence_of (fst (hd oas')) \<le> ?q"
        proof (cases oas')
          case Nil
          then show ?thesis by simp
        next
          case (Cons y oas'')
          obtain opr' a' where "y = (opr', a')" by (cases y)
          with Cons wf' False show ?thesis
            by (simp add: getBinOpPrecedence_operator)
        qed
        with False show ?thesis
          by (intro exI [of _ "[]"] exI [of _ oas']) simp
      next
        case True
        have "oas' \<noteq> []"
        proof
          assume "oas' = []"
          with True stop qb show False by simp
        qed
        then obtain opr' a' oas'' where oas': "oas' = (opr', a') # oas''"
          by (cases oas') auto
        with wf' have "isBinaryOperator opr'" by simp
        from operator_is_not [OF this] oas' have ne: "getTok ?p1 \<noteq> Token_Equal"
          by (simp add: getTok_Cons)
        have i8: "int8 (?q + 1) = ?q + 1"
          using qb by (intro int8_small) simp_all
        have step: "parseBinOpRHS m A (int8 (?q + 1)) (snd a) ?p1 =
            parseBinOpRHS_loop (Suc k) A (?q + 1) (snd a) ?p1"
          using ne by (simp add: m i8)
        have "Suc k < n" using n m by simp
        moreover have "1 \<le> ?q + 1" using qb by simp
        moreover have "2 * length oas' + 1 + K \<le> Suc k" using len by simp
        ultimately obtain sp1 oasL oasR where
          r: "oas' = oasL @ oasR" "spineOperands sp1 = oasL"
            "standardSpine (?q + 1) sp1"
            "oasR = [] \<or> Precedence_of (fst (hd oasR)) < ?q + 1"
            "parseBinOpRHS_loop (Suc k) A (?q + 1) (snd a) ?p1 =
               Ok (p\<lparr>Lexer := operatorOperandTokens oasR @ rest\<rparr>)
                  (plugsAST A (snd a) sp1)"
          using less.IH [of "Suc k" oas' "?q + 1" "snd a"] wf' by blast
        from r(4) have "oasR = [] \<or> Precedence_of (fst (hd oasR)) \<le> ?q" by auto
        with r True step show ?thesis
          by (intro exI [of _ sp1] exI [of _ oasL] exI [of _ oasR]) simp
      qed
      then obtain sp1 oasL oasR where
        r: "oas' = oasL @ oasR" "spineOperands sp1 = oasL"
          "standardSpine (?q + 1) sp1"
          "oasR = [] \<or> Precedence_of (fst (hd oasR)) \<le> ?q"
          "(if ?q < getBinOpPrecedence ?p1
            then parseBinOpRHS m A (int8 (?q + 1)) (snd a) ?p1
            else Ok ?p1 (snd a)) =
            Ok (p\<lparr>Lexer := operatorOperandTokens oasR @ rest\<rparr>) (plugsAST A (snd a) sp1)"
        by blast
      let ?R1 = "plugs (Leaf a) sp1"
      let ?Res1 = "BinaryOperatorAST_tryFoldBinOp A opr Res (plugsAST A (snd a) sp1)"
      have wfR: "\<forall>(opr, b)\<in>set oasR. isBinaryOperator opr \<and> parsesOperand K A p b"
        using wf' r(1) by auto
      have "m < n" using n by simp
      moreover have "2 * length oasR + 1 + K \<le> m" using len r(1) m by simp
      ultimately obtain sp2 oas1' oas2 where
        c: "oasR = oas1' @ oas2" "spineOperands sp2 = oas1'"
          "standardSpine E sp2" "sp2 \<noteq> [] \<longrightarrow> fst (hd sp2) = fst (hd oasR)"
          "oas2 = [] \<or> Precedence_of (fst (hd oas2)) < E"
          "parseBinOpRHS_loop m A E ?Res1 (p\<lparr>Lexer := operatorOperandTokens oasR @ rest\<rparr>) =
             Ok (p\<lparr>Lexer := operatorOperandTokens oas2 @ rest\<rparr>) (plugsAST A ?Res1 sp2)"
        using less.IH [of m oasR E ?Res1] wfR E1 by blast
      have merge: "mergeBinOp A (getTok ?p0) (getStrVal ?p0) Res (plugsAST A (snd a) sp1) =
          ?Res1"
        using operator_is_not [OF opr] by (simp add: mergeBinOp_def t0)
      have loop: "parseBinOpRHS_loop (Suc m) A E Res ?p0 =
          Ok (p\<lparr>Lexer := operatorOperandTokens oas2 @ rest\<rparr>) (plugsAST A ?Res1 sp2)"
        using False q0 prim r(5) merge c(6)
        by (cases "?q < getBinOpPrecedence ?p1") simp_all
      have stdR1: "standard ?R1"
        by (rule standard_plugs_Leaf [OF r(3)])
      have precR1: "?q < rootPrec ?R1"
        using rootPrec_plugs [OF r(3), of "Leaf a"] qb by simp
      have chain: "case sp2 of [] \<Rightarrow> True
          | (opr2, R2) # sp2' \<Rightarrow> Precedence_of opr2 \<le> ?q"
      proof (cases sp2)
        case Nil
        then show ?thesis by simp
      next
        case (Cons z sp2')
        obtain opr2 R2 where z: "z = (opr2, R2)" by (cases z)
        with Cons c(2) have "oas1' \<noteq> []" by auto
        with c(1) have "oasR \<noteq> []" "hd oasR = hd oas1'" by auto
        with r(4) c(4) Cons z show ?thesis by simp
      qed
      show ?thesis
      proof (rule exI [of _ "(opr, ?R1) # sp2"], rule exI [of _ "(opr, a) # oasL @ oas1'"],
          rule exI [of _ oas2], intro conjI)
        show "oas = ((opr, a) # oasL @ oas1') @ oas2"
          using Cons x r(1) c(1) by simp
        show "spineOperands ((opr, ?R1) # sp2) = (opr, a) # oasL @ oas1'"
          using r(2) c(2) by (simp add: firstOperand_plugs operatorOperands_plugs)
        show "standardSpine E ((opr, ?R1) # sp2)"
          using opr False stdR1 precR1 chain c(3) by simp
        show "(opr, ?R1) # sp2 \<noteq> [] \<longrightarrow> fst (hd ((opr, ?R1) # sp2)) = fst (hd oas)"
          using Cons x by simp
        show "oas2 = [] \<or> Precedence_of (fst (hd oas2)) < E" by (rule c(5))
        show "parseBinOpRHS_loop n A E Res ?p0 =
            Ok (p\<lparr>Lexer := operatorOperandTokens oas2 @ rest\<rparr>)
               (plugsAST A Res ((opr, ?R1) # sp2))"
          using loop n by (simp add: build_plugs)
      qed
    qed
  qed
qed

text \<open>
  Parsing an operand followed by operators alternating with operands, up to a token that is
  no operator: the parser consumes them all, reports nothing, and returns what the node
  factory builds along a tree in standard form that reads, from left to right, as the input.
\<close>

lemma parseExpression_standard:
  assumes a: "parsesOperand K A p a"
    and wf: "\<forall>(opr, b)\<in>set oas. isBinaryOperator opr \<and> parsesOperand K A p b"
    and stop: "getBinOpPrecedence (p\<lparr>Lexer := rest\<rparr>) < 1"
    and f: "followsOperand (getTok (p\<lparr>Lexer := rest\<rparr>))"
    and fuel: "K + 2 * length oas + 4 \<le> n"
  shows "\<exists>T. standard T \<and> firstOperand T = a \<and> operatorOperands T = oas \<and>
           parseExpression n A (p\<lparr>Lexer := fst a @ operatorOperandTokens oas @ rest\<rparr>) =
             Ok (p\<lparr>Lexer := rest\<rparr>) (build A T)"
proof -
  from fuel obtain k where n: "n = Suc (Suc (Suc (Suc k)))" and k: "K + 2 * length oas \<le> k"
    by (cases n; cases "n - 1"; cases "n - 2"; cases "n - 3") auto
  let ?p1 = "p\<lparr>Lexer := operatorOperandTokens oas @ rest\<rparr>"
  note follow = operatorOperandTokens_follow [OF wf f]
  have "K \<le> Suc (Suc (Suc k))" using k by simp
  with a follow have prim: "parsePrimaryExpression (Suc (Suc (Suc k))) A
      (p\<lparr>Lexer := fst a @ operatorOperandTokens oas @ rest\<rparr>) = Ok ?p1 (snd a)"
    unfolding parsesOperand_def by blast
  have ne: "getTok ?p1 \<noteq> Token_Equal"
  proof (cases oas)
    case Nil
    with stop show ?thesis
      by (auto simp: getBinOpPrecedence_def)
  next
    case (Cons x oas')
    obtain opr b where "x = (opr, b)" by (cases x)
    with Cons wf operator_is_not [of opr] show ?thesis
      by (simp add: getTok_Cons)
  qed
  have "2 * length oas + 1 + K \<le> Suc (Suc k)" using k by simp
  from parseBinOpRHS_loop_spine [OF stop f wf _ this, of 1 "snd a"]
  obtain sp oas1 oas2 where
    r: "oas = oas1 @ oas2" "spineOperands sp = oas1"
      "standardSpine 1 sp" "oas2 = [] \<or> Precedence_of (fst (hd oas2)) < 1"
      "parseBinOpRHS_loop (Suc (Suc k)) A 1 (snd a) ?p1 =
         Ok (p\<lparr>Lexer := operatorOperandTokens oas2 @ rest\<rparr>) (plugsAST A (snd a) sp)"
    by auto
  have oas2: "oas2 = []"
  proof (rule ccontr)
    assume "oas2 \<noteq> []"
    then have "hd oas2 \<in> set oas" using r(1) by simp
    with wf have "isBinaryOperator (fst (hd oas2))" by (cases "hd oas2") auto
    from Precedence_of_bounds [OF this] r(4) \<open>oas2 \<noteq> []\<close> show False by simp
  qed
  let ?T = "plugs (Leaf a) sp"
  have "standard ?T"
    by (rule standard_plugs_Leaf [OF r(3)])
  moreover have "firstOperand ?T = a"
    by (simp add: firstOperand_plugs)
  moreover have "operatorOperands ?T = oas"
    using r(1,2) oas2 by (simp add: operatorOperands_plugs)
  moreover have "parseExpression n A (p\<lparr>Lexer := fst a @ operatorOperandTokens oas @ rest\<rparr>) =
      Ok (p\<lparr>Lexer := rest\<rparr>) (build A ?T)"
    using prim ne r(5) oas2 by (simp add: n build_plugs del: parsePrimaryExpression.simps
        parseBinOpRHS_loop.simps)
  ultimately show ?thesis by blast
qed

text \<open>
  A sequence of operands and operators is read off at most one tree in standard form: the
  operator at the root is the last one of lowest precedence.
\<close>

lemma standard_operators:
  "standard T \<Longrightarrow> (opr, b) \<in> set (operatorOperands T) \<Longrightarrow>
     isBinaryOperator opr \<and> rootPrec T \<le> Precedence_of opr"
proof (induction T)
  case (Leaf a)
  then show ?case by simp
next
  case (Node opr' l r)
  from Node.prems(2) consider "(opr, b) \<in> set (operatorOperands l)"
    | "opr = opr'" | "(opr, b) \<in> set (operatorOperands r)"
    by auto
  then show ?case
  proof cases
    case 1
    with Node.IH(1) Node.prems(1) show ?thesis by fastforce
  next
    case 2
    with Node.prems(1) show ?thesis by simp
  next
    case 3
    with Node.IH(2) Node.prems(1) show ?thesis by fastforce
  qed
qed

lemma standard_split:
  assumes "standard (Node opr l r)" and "standard (Node opr' l' r')"
    and "operatorOperands l = operatorOperands l' @ u # us"
    and "u # us @ (opr, b) # operatorOperands r = (opr', b') # operatorOperands r'"
  shows False
proof -
  from assms(4) have u: "u = (opr', b')"
    and r': "operatorOperands r' = us @ (opr, b) # operatorOperands r"
    by simp_all
  have "(opr', b') \<in> set (operatorOperands l)" using assms(3) u by simp
  with standard_operators [of l opr' b'] assms(1)
  have "Precedence_of opr \<le> Precedence_of opr'" by auto
  moreover have "(opr, b) \<in> set (operatorOperands r')" using r' by simp
  with standard_operators [of r' opr b] assms(2)
  have "Precedence_of opr' < Precedence_of opr" by auto
  ultimately show False by simp
qed

lemma standard_unique:
  "standard T \<Longrightarrow> standard T' \<Longrightarrow> firstOperand T = firstOperand T' \<Longrightarrow>
     operatorOperands T = operatorOperands T' \<Longrightarrow> T = T'"
proof (induction T arbitrary: T')
  case (Leaf a)
  then show ?case
    by (cases T') simp_all
next
  case (Node opr l r)
  show ?case
  proof (cases T')
    case (Leaf a)
    with Node.prems(4) show ?thesis by simp
  next
    case T': (Node opr' l' r')
    from Node.prems(4) T'
    have e: "operatorOperands l @ (opr, firstOperand r) # operatorOperands r =
        operatorOperands l' @ (opr', firstOperand r') # operatorOperands r'"
      by simp
    then obtain ws where
      "operatorOperands l = operatorOperands l' @ ws \<and>
         ws @ (opr, firstOperand r) # operatorOperands r =
           (opr', firstOperand r') # operatorOperands r' \<or>
       operatorOperands l @ ws = operatorOperands l' \<and>
         (opr, firstOperand r) # operatorOperands r =
           ws @ (opr', firstOperand r') # operatorOperands r'"
      by (auto simp: append_eq_append_conv2)
    then have l: "operatorOperands l = operatorOperands l'"
    proof
      assume a: "operatorOperands l = operatorOperands l' @ ws \<and>
         ws @ (opr, firstOperand r) # operatorOperands r =
           (opr', firstOperand r') # operatorOperands r'"
      show ?thesis
      proof (cases ws)
        case Nil
        with a show ?thesis by simp
      next
        case (Cons u us)
        with a standard_split [OF Node.prems(1) Node.prems(2) [unfolded T'], where u = u
            and us = us and b = "firstOperand r" and b' = "firstOperand r'"]
        show ?thesis by simp
      qed
    next
      assume a: "operatorOperands l @ ws = operatorOperands l' \<and>
         (opr, firstOperand r) # operatorOperands r =
           ws @ (opr', firstOperand r') # operatorOperands r'"
      show ?thesis
      proof (cases ws)
        case Nil
        with a show ?thesis by simp
      next
        case (Cons u us)
        with a standard_split [OF Node.prems(2) [unfolded T'] Node.prems(1), where u = u
            and us = us and b = "firstOperand r'" and b' = "firstOperand r"]
        show ?thesis by simp
      qed
    qed
    with e have o: "opr = opr'" and f: "firstOperand r = firstOperand r'"
      and r: "operatorOperands r = operatorOperands r'"
      by simp_all
    from Node.prems(3) T' have fl: "firstOperand l = firstOperand l'" by simp
    from Node.prems(1,2) T' have "standard l" "standard l'" "standard r" "standard r'"
      by simp_all
    with Node.IH(1) [of l'] Node.IH(2) [of r'] l r f fl have "l = l'" "r = r'"
      by simp_all
    with o T' show ?thesis by simp
  qed
qed

text \<open>
  What an operand can be: a literal or an identifier; an operand after a prefix operator; an
  expression in parentheses.
\<close>

lemma parsesOperand_atom:
  assumes "isAtom t"
  shows "parsesOperand 2 A p ([t], atomAST t)"
  unfolding parsesOperand_def
proof (intro allI impI)
  fix n :: nat and rest :: "Token list"
  assume h: "2 \<le> n \<and> followsOperand (getTok (p\<lparr>Lexer := rest\<rparr>))"
  then obtain k where n: "n = Suc (Suc k)"
    by (cases n; cases "n - 1") auto
  from assms have "(\<exists>i. t = Token_Integer i) \<or> (\<exists>d. t = Token_Double d) \<or>
      (\<exists>s. t = Token_String s) \<or> (\<exists>b. t = Token_Boolean b) \<or> (\<exists>s. t = Token_Identifier s)"
    by (cases t) (simp_all add: isAtom_def isConstant_def isIdentifier_def)
  with h show "parsePrimaryExpression n A (p\<lparr>Lexer := fst ([t], atomAST t) @ rest\<rparr>) =
      Ok (p\<lparr>Lexer := rest\<rparr>) (snd ([t], atomAST t))"
    unfolding n followsOperand_def
    by (elim disjE exE)
       (simp_all add: getTok_Cons Lex_Cons isIdentifier_def isConstant_def
          parseConstantExpression_def getStrVal_def)
qed

lemma parsesOperand_prefix:
  assumes "parsesOperand K A p a" and "prefixOperator u = Some UnaryOpKind"
  shows "parsesOperand (K + 2) A p
           (u # fst a, UnaryOperatorAST_tryFoldUnaryOp A UnaryOpKind (snd a))"
  unfolding parsesOperand_def
proof (intro allI impI)
  fix n :: nat and rest :: "Token list"
  assume h: "K + 2 \<le> n \<and> followsOperand (getTok (p\<lparr>Lexer := rest\<rparr>))"
  then obtain k where n: "n = Suc (Suc k)" and k: "K \<le> k"
    by (cases n; cases "n - 1") auto
  from assms(1) h k have o: "parsePrimaryExpression k A (p\<lparr>Lexer := fst a @ rest\<rparr>) =
      Ok (p\<lparr>Lexer := rest\<rparr>) (snd a)"
    unfolding parsesOperand_def by blast
  from assms(2) have "u = Token_Plus \<and> UnaryOpKind = UnaryPlus \<or>
      u = Token_Minus \<and> UnaryOpKind = UnaryMinus \<or>
      u = Token_Tilde \<and> UnaryOpKind = BitwiseNot \<or>
      u = Token_Exclaim \<and> UnaryOpKind = LogicalNot"
    by (cases u) simp_all
  with o show "parsePrimaryExpression n A
      (p\<lparr>Lexer := fst (u # fst a, UnaryOperatorAST_tryFoldUnaryOp A UnaryOpKind (snd a)) @
         rest\<rparr>) =
      Ok (p\<lparr>Lexer := rest\<rparr>)
         (snd (u # fst a, UnaryOperatorAST_tryFoldUnaryOp A UnaryOpKind (snd a)))"
    unfolding n
    by (elim disjE conjE)
       (simp_all add: getTok_Cons Lex_Cons isIdentifier_def isConstant_def)
qed

lemma parsesOperand_paren:
  assumes "parsesExpression K A p a"
  shows "parsesOperand (K + 2) A p (Token_LParen # fst a @ [Token_RParen], snd a)"
  unfolding parsesOperand_def
proof (intro allI impI)
  fix n :: nat and rest :: "Token list"
  assume h: "K + 2 \<le> n \<and> followsOperand (getTok (p\<lparr>Lexer := rest\<rparr>))"
  then obtain k where n: "n = Suc (Suc k)" and k: "K \<le> k"
    by (cases n; cases "n - 1") auto
  have "getBinOpPrecedence (p\<lparr>Lexer := Token_RParen # rest\<rparr>) < 1"
    and "followsOperand (getTok (p\<lparr>Lexer := Token_RParen # rest\<rparr>))"
    by (simp_all add: getBinOpPrecedence_def getTok_Cons followsOperand_def)
  with assms k have "parseExpression k A (p\<lparr>Lexer := fst a @ Token_RParen # rest\<rparr>) =
      Ok (p\<lparr>Lexer := Token_RParen # rest\<rparr>) (snd a)"
    unfolding parsesExpression_def by blast
  then show "parsePrimaryExpression n A
      (p\<lparr>Lexer := fst (Token_LParen # fst a @ [Token_RParen], snd a) @ rest\<rparr>) =
      Ok (p\<lparr>Lexer := rest\<rparr>) (snd (Token_LParen # fst a @ [Token_RParen], snd a))"
    unfolding n
    by (simp add: getTok_Cons Lex_Cons del: parseExpression.simps)
qed

text \<open>
  The assignment is no operator of the loop when it follows the first operand:
  \<^verbatim>\<open>a = b = 3\<close> goes through the branch before the loop twice and nests to the right.
\<close>

lemma assignment_nests_right:
  "parseExpression 20 A (CMMParser_init assignChain) =
     (case BinaryOperatorAST_create A Token_Equal (IdentifierAST ''b'') (IntAST 3) of
        None \<Rightarrow> AssertFailed
      | Some Inner \<Rightarrow>
          (case BinaryOperatorAST_create A Token_Equal (IdentifierAST ''a'') Inner of
             None \<Rightarrow> AssertFailed
           | Some Outer \<Rightarrow> Ok (CMMParser_init []) Outer))
   \<and> parseExpression 20 nodeASTLib (CMMParser_init assignChain) =
       Ok (CMMParser_init [])
          (BinaryOperatorAST Assign (IdentifierAST ''a'')
             (BinaryOperatorAST Assign (IdentifierAST ''b'') (IntAST 3)))"
proof
  show "parseExpression 20 A (CMMParser_init assignChain) =
     (case BinaryOperatorAST_create A Token_Equal (IdentifierAST ''b'') (IntAST 3) of
        None \<Rightarrow> AssertFailed
      | Some Inner \<Rightarrow>
          (case BinaryOperatorAST_create A Token_Equal (IdentifierAST ''a'') Inner of
             None \<Rightarrow> AssertFailed
           | Some Outer \<Rightarrow> Ok (CMMParser_init []) Outer))"
    unfolding assignChain_def
    by (simp add: eval_nat_numeral CMMParser_init_def getTok_def Lex_def isIdentifier_def
        isConstant_def parseConstantExpression_def getBinOpPrecedence_def getStrVal_def
        split: option.split)
  show "parseExpression 20 nodeASTLib (CMMParser_init assignChain) =
       Ok (CMMParser_init [])
          (BinaryOperatorAST Assign (IdentifierAST ''a'')
             (BinaryOperatorAST Assign (IdentifierAST ''b'') (IntAST 3)))"
    unfolding assignChain_def by code_simp
qed

lemma parsesOperand_mono:
  "parsesOperand K A p a \<Longrightarrow> K \<le> K' \<Longrightarrow> parsesOperand K' A p a"
  unfolding parsesOperand_def by auto

text \<open>
  C7. The operators are the binary operators of the built-in precedence table; \<^verbatim>\<open>=\<close>, which
  the parser handles before its loop, has the spec's next sentence to itself. The operands are
  whatever \<^verbatim>\<open>parsePrimaryExpression\<close> parses: literals and identifiers, an operand after a
  prefix operator, an expression in parentheses, and so on. For an operand followed by
  operators alternating with operands there is exactly one tree in standard form that reads as
  this sequence (under every operator the left operand binds at least as tightly, so that
  equal precedence nests to the left, and the right operand binds strictly tighter), and, up
  to a token that is no operator, \<^verbatim>\<open>parseExpression\<close> consumes exactly the sequence, reports
  nothing, and returns what \<^verbatim>\<open>BinaryOperatorAST::tryFoldBinOp\<close> builds along that tree. In
  particular \<^verbatim>\<open>1 + 2 * 3\<close> is built as + of 1 and (* of 2 and 3), \<^verbatim>\<open>2 * 3 + 1\<close> as + of
  (* of 2 and 3) and 1, and \<^verbatim>\<open>1 - 2 - 3\<close> as - of (- of 1 and 2) and 3; a prefix operator
  binds tighter than every binary operator, and parentheses group. The precedences are those
  of the table, from \<^verbatim>\<open>||\<close> (2) up to \<^verbatim>\<open>*\<close>, \<^verbatim>\<open>/\<close> and \<^verbatim>\<open>%\<close> (11).
\<close>

theorem C7_parse_standard_precedence:
  "(parsesOperand K A p a \<and> (\<forall>(opr, b)\<in>set oas. isBinaryOperator opr \<and> parsesOperand K A p b) \<longrightarrow>
     (\<exists>T. standard T \<and> firstOperand T = a \<and> operatorOperands T = oas \<and>
        (\<forall>T'. standard T' \<and> firstOperand T' = a \<and> operatorOperands T' = oas \<longrightarrow> T' = T) \<and>
        tokens_of T = fst a @ operatorOperandTokens oas \<and>
        (\<forall>n rest. K + 2 * length oas + 4 \<le> n \<and>
           getBinOpPrecedence (p\<lparr>Lexer := rest\<rparr>) < 1 \<and>
           followsOperand (getTok (p\<lparr>Lexer := rest\<rparr>)) \<longrightarrow>
           parseExpression n A (p\<lparr>Lexer := fst a @ operatorOperandTokens oas @ rest\<rparr>) =
             Ok (p\<lparr>Lexer := rest\<rparr>) (build A T))))
   \<and> (isAtom t \<longrightarrow> parsesOperand 2 A p ([t], atomAST t))
   \<and> (parsesOperand K A p a \<and> prefixOperator u = Some UnaryOpKind \<longrightarrow>
        parsesOperand (K + 2) A p
          (u # fst a, UnaryOperatorAST_tryFoldUnaryOp A UnaryOpKind (snd a)))
   \<and> (parsesExpression K A p a \<longrightarrow>
        parsesOperand (K + 2) A p (Token_LParen # fst a @ [Token_RParen], snd a))
   \<and> parseExpression 20 A (CMMParser_init onePlusTwoTimesThree) =
       Ok (CMMParser_init [])
          (BinaryOperatorAST_tryFoldBinOp A Token_Plus (IntAST 1)
             (BinaryOperatorAST_tryFoldBinOp A Token_Star (IntAST 2) (IntAST 3)))
   \<and> parseExpression 20 A (CMMParser_init twoTimesThreePlusOne) =
       Ok (CMMParser_init [])
          (BinaryOperatorAST_tryFoldBinOp A Token_Plus
             (BinaryOperatorAST_tryFoldBinOp A Token_Star (IntAST 2) (IntAST 3)) (IntAST 1))
   \<and> parseExpression 20 A (CMMParser_init oneMinusTwoMinusThree) =
       Ok (CMMParser_init [])
          (BinaryOperatorAST_tryFoldBinOp A Token_Minus
             (BinaryOperatorAST_tryFoldBinOp A Token_Minus (IntAST 1) (IntAST 2)) (IntAST 3))
   \<and> parseExpression 20 A (CMMParser_init minusATimesB) =
       Ok (CMMParser_init [])
          (BinaryOperatorAST_tryFoldBinOp A Token_Star
             (UnaryOperatorAST_tryFoldUnaryOp A UnaryMinus (IdentifierAST ''a''))
             (IdentifierAST ''b''))
   \<and> parseExpression 20 A (CMMParser_init onePlusTwoInParensTimesThree) =
       Ok (CMMParser_init [])
          (BinaryOperatorAST_tryFoldBinOp A Token_Star
             (BinaryOperatorAST_tryFoldBinOp A Token_Plus (IntAST 1) (IntAST 2)) (IntAST 3))
   \<and> parseExpression 20 A (CMMParser_init callPlusIndexTimesThree) =
       Ok (CMMParser_init [])
          (BinaryOperatorAST_tryFoldBinOp A Token_Plus
             (FunctionCallAST ''f'' [IntAST 1] False)
             (BinaryOperatorAST_tryFoldBinOp A Token_Star
                (BinaryOperatorAST Index (IdentifierAST ''a'') (IntAST 2)) (IntAST 3)))
   \<and> map Precedence_of binaryOperators =
       [2, 3, 4, 5, 6, 7, 7, 8, 8, 8, 8, 9, 9, 10, 10, 11, 11, 11]"
proof (intro conjI impI)
  assume h: "parsesOperand K A p a \<and>
    (\<forall>(opr, b)\<in>set oas. isBinaryOperator opr \<and> parsesOperand K A p b)"
  then have a: "parsesOperand K A p a"
    and wf: "\<forall>(opr, b)\<in>set oas. isBinaryOperator opr \<and> parsesOperand K A p b"
    by simp_all
  have "getBinOpPrecedence (p\<lparr>Lexer := []\<rparr>) < 1"
    and "followsOperand (getTok (p\<lparr>Lexer := []\<rparr>))"
    by (simp_all add: getBinOpPrecedence_def getTok_def followsOperand_def)
  from parseExpression_standard [OF a wf this order_refl]
  obtain T where T: "standard T" "firstOperand T = a" "operatorOperands T = oas"
    by blast
  have u: "\<forall>T'. standard T' \<and> firstOperand T' = a \<and> operatorOperands T' = oas \<longrightarrow> T' = T"
    using standard_unique [OF _ T(1)] T(2,3) by simp
  have t: "tokens_of T = fst a @ operatorOperandTokens oas"
    using tokens_of_operands [of T] T(2,3) by simp
  have "\<forall>n rest. K + 2 * length oas + 4 \<le> n \<and>
           getBinOpPrecedence (p\<lparr>Lexer := rest\<rparr>) < 1 \<and>
           followsOperand (getTok (p\<lparr>Lexer := rest\<rparr>)) \<longrightarrow>
           parseExpression n A (p\<lparr>Lexer := fst a @ operatorOperandTokens oas @ rest\<rparr>) =
             Ok (p\<lparr>Lexer := rest\<rparr>) (build A T)"
  proof (intro allI impI)
    fix n :: nat and rest :: "Token list"
    assume r: "K + 2 * length oas + 4 \<le> n \<and>
           getBinOpPrecedence (p\<lparr>Lexer := rest\<rparr>) < 1 \<and>
           followsOperand (getTok (p\<lparr>Lexer := rest\<rparr>))"
    then have "\<exists>T'. standard T' \<and> firstOperand T' = a \<and> operatorOperands T' = oas \<and>
        parseExpression n A (p\<lparr>Lexer := fst a @ operatorOperandTokens oas @ rest\<rparr>) =
          Ok (p\<lparr>Lexer := rest\<rparr>) (build A T')"
      by (intro parseExpression_standard [OF a wf]) simp_all
    with u show "parseExpression n A (p\<lparr>Lexer := fst a @ operatorOperandTokens oas @ rest\<rparr>) =
        Ok (p\<lparr>Lexer := rest\<rparr>) (build A T)"
      by auto
  qed
  with T u t show "\<exists>T. standard T \<and> firstOperand T = a \<and> operatorOperands T = oas \<and>
        (\<forall>T'. standard T' \<and> firstOperand T' = a \<and> operatorOperands T' = oas \<longrightarrow> T' = T) \<and>
        tokens_of T = fst a @ operatorOperandTokens oas \<and>
        (\<forall>n rest. K + 2 * length oas + 4 \<le> n \<and>
           getBinOpPrecedence (p\<lparr>Lexer := rest\<rparr>) < 1 \<and>
           followsOperand (getTok (p\<lparr>Lexer := rest\<rparr>)) \<longrightarrow>
           parseExpression n A (p\<lparr>Lexer := fst a @ operatorOperandTokens oas @ rest\<rparr>) =
             Ok (p\<lparr>Lexer := rest\<rparr>) (build A T))"
    by blast
next
  assume "isAtom t"
  then show "parsesOperand 2 A p ([t], atomAST t)"
    by (rule parsesOperand_atom)
next
  assume "parsesOperand K A p a \<and> prefixOperator u = Some UnaryOpKind"
  then show "parsesOperand (K + 2) A p
      (u # fst a, UnaryOperatorAST_tryFoldUnaryOp A UnaryOpKind (snd a))"
    by (intro parsesOperand_prefix) simp_all
next
  assume "parsesExpression K A p a"
  then show "parsesOperand (K + 2) A p (Token_LParen # fst a @ [Token_RParen], snd a)"
    by (rule parsesOperand_paren)
next
  show "parseExpression 20 A (CMMParser_init onePlusTwoTimesThree) =
       Ok (CMMParser_init [])
          (BinaryOperatorAST_tryFoldBinOp A Token_Plus (IntAST 1)
             (BinaryOperatorAST_tryFoldBinOp A Token_Star (IntAST 2) (IntAST 3)))"
    unfolding onePlusTwoTimesThree_def by code_simp
next
  show "parseExpression 20 A (CMMParser_init twoTimesThreePlusOne) =
       Ok (CMMParser_init [])
          (BinaryOperatorAST_tryFoldBinOp A Token_Plus
             (BinaryOperatorAST_tryFoldBinOp A Token_Star (IntAST 2) (IntAST 3)) (IntAST 1))"
    unfolding twoTimesThreePlusOne_def by code_simp
next
  show "parseExpression 20 A (CMMParser_init oneMinusTwoMinusThree) =
       Ok (CMMParser_init [])
          (BinaryOperatorAST_tryFoldBinOp A Token_Minus
             (BinaryOperatorAST_tryFoldBinOp A Token_Minus (IntAST 1) (IntAST 2)) (IntAST 3))"
    unfolding oneMinusTwoMinusThree_def by code_simp
next
  show "parseExpression 20 A (CMMParser_init minusATimesB) =
       Ok (CMMParser_init [])
          (BinaryOperatorAST_tryFoldBinOp A Token_Star
             (UnaryOperatorAST_tryFoldUnaryOp A UnaryMinus (IdentifierAST ''a''))
             (IdentifierAST ''b''))"
    unfolding minusATimesB_def by code_simp
next
  show "parseExpression 20 A (CMMParser_init onePlusTwoInParensTimesThree) =
       Ok (CMMParser_init [])
          (BinaryOperatorAST_tryFoldBinOp A Token_Star
             (BinaryOperatorAST_tryFoldBinOp A Token_Plus (IntAST 1) (IntAST 2)) (IntAST 3))"
    unfolding onePlusTwoInParensTimesThree_def by code_simp
next
  show "parseExpression 20 A (CMMParser_init callPlusIndexTimesThree) =
       Ok (CMMParser_init [])
          (BinaryOperatorAST_tryFoldBinOp A Token_Plus
             (FunctionCallAST ''f'' [IntAST 1] False)
             (BinaryOperatorAST_tryFoldBinOp A Token_Star
                (BinaryOperatorAST Index (IdentifierAST ''a'') (IntAST 2)) (IntAST 3)))"
    unfolding callPlusIndexTimesThree_def by code_simp
next
  show "map Precedence_of binaryOperators =
       [2, 3, 4, 5, 6, 7, 7, 8, 8, 8, 8, 9, 9, 10, 10, 11, 11, 11]"
    by (simp add: binaryOperators_def Precedence_of_def getBinOpPrecedence_def getTok_def
        CMMParser_init_def)
qed

text \<open>
  \<^verbatim>\<open>- a * (b + c) - 1;\<close> with the node factory that folds nothing. The operands are \<^verbatim>\<open>- a\<close>,
  \<^verbatim>\<open>(b + c)\<close>, whose inside is an expression of the same kind, and \<^verbatim>\<open>1\<close>; the tree in
  standard form is - over (* over \<^verbatim>\<open>- a\<close> and \<^verbatim>\<open>(b + c)\<close>) and 1.
\<close>

theorem C7_nested_operands_witness:
  "parsesOperand 10 nodeASTLib (CMMParser_init [])
     ([Token_Minus, Token_Identifier ''a''], UnaryOperatorAST UnaryMinus (IdentifierAST ''a''))
   \<and> isBinaryOperator Token_Star
   \<and> parsesOperand 10 nodeASTLib (CMMParser_init [])
       ([Token_LParen, Token_Identifier ''b'', Token_Plus, Token_Identifier ''c'',
         Token_RParen],
        BinaryOperatorAST Add (IdentifierAST ''b'') (IdentifierAST ''c''))
   \<and> isBinaryOperator Token_Minus
   \<and> parsesOperand 10 nodeASTLib (CMMParser_init []) ([Token_Integer 1], IntAST 1)
   \<and> parseExpression 20 nodeASTLib
       (CMMParser_init
          [Token_Minus, Token_Identifier ''a'', Token_Star, Token_LParen,
           Token_Identifier ''b'', Token_Plus, Token_Identifier ''c'', Token_RParen,
           Token_Minus, Token_Integer 1, Token_Semicolon]) =
       Ok (CMMParser_init [Token_Semicolon])
          (BinaryOperatorAST Minus
             (BinaryOperatorAST Multiply
                (UnaryOperatorAST UnaryMinus (IdentifierAST ''a''))
                (BinaryOperatorAST Add (IdentifierAST ''b'') (IdentifierAST ''c'')))
             (IntAST 1))
   \<and> parseExpression 20 nodeASTLib (CMMParser_init onePlusTwoTimesThree) =
       Ok (CMMParser_init [])
          (BinaryOperatorAST Add (IntAST 1) (BinaryOperatorAST Multiply (IntAST 2) (IntAST 3)))
   \<and> parseExpression 20 nodeASTLib (CMMParser_init twoTimesThreePlusOne) =
       Ok (CMMParser_init [])
          (BinaryOperatorAST Add (BinaryOperatorAST Multiply (IntAST 2) (IntAST 3)) (IntAST 1))"
proof -
  let ?A = nodeASTLib
  let ?p = "CMMParser_init []"
  let ?a = "([Token_Identifier ''a''], IdentifierAST ''a'')"
  let ?b = "([Token_Identifier ''b''], IdentifierAST ''b'')"
  let ?c = "([Token_Identifier ''c''], IdentifierAST ''c'')"
  let ?one = "([Token_Integer 1], IntAST 1)"
  let ?neg = "([Token_Minus, Token_Identifier ''a''],
      UnaryOperatorAST UnaryMinus (IdentifierAST ''a''))"
  let ?sum = "([Token_Identifier ''b'', Token_Plus, Token_Identifier ''c''],
      BinaryOperatorAST Add (IdentifierAST ''b'') (IdentifierAST ''c''))"
  let ?paren = "([Token_LParen, Token_Identifier ''b'', Token_Plus, Token_Identifier ''c'',
      Token_RParen], BinaryOperatorAST Add (IdentifierAST ''b'') (IdentifierAST ''c''))"
  note C7 = C7_parse_standard_precedence [where A = ?A and p = ?p]
  note atom = C7_parse_standard_precedence [where A = ?A and p = ?p, THEN conjunct2,
      THEN conjunct1, rule_format]
  note ex1 = C7 [THEN conjunct2, THEN conjunct2, THEN conjunct2, THEN conjunct2,
      THEN conjunct1]
  note ex2 = C7 [THEN conjunct2, THEN conjunct2, THEN conjunct2, THEN conjunct2,
      THEN conjunct2, THEN conjunct1]
  have ops: "isBinaryOperator Token_Plus" "isBinaryOperator Token_Star"
    "isBinaryOperator Token_Minus"
    by (simp_all add: isBinaryOperator_def binaryOperators_def)
  have prec: "Precedence_of Token_Plus = 10" "Precedence_of Token_Star = 11"
    "Precedence_of Token_Minus = 10"
    by (simp_all add: Precedence_of_def getBinOpPrecedence_def getTok_def CMMParser_init_def)
  have a: "parsesOperand 2 ?A ?p ?a"
    using atom [of "Token_Identifier ''a''"] by (simp add: isAtom_def isIdentifier_def)
  have b: "parsesOperand 2 ?A ?p ?b"
    using atom [of "Token_Identifier ''b''"] by (simp add: isAtom_def isIdentifier_def)
  have c: "parsesOperand 2 ?A ?p ?c"
    using atom [of "Token_Identifier ''c''"] by (simp add: isAtom_def isIdentifier_def)
  have one: "parsesOperand 2 ?A ?p ?one"
    using atom [of "Token_Integer 1"] by (simp add: isAtom_def isConstant_def)
  have neg: "parsesOperand 4 ?A ?p ?neg"
    using C7_parse_standard_precedence [where A = ?A and p = ?p and K = 2 and a = ?a
        and u = Token_Minus and UnaryOpKind = UnaryMinus, THEN conjunct2, THEN conjunct2,
        THEN conjunct1] a
    by (simp add: nodeASTLib_def)
  have "\<forall>(opr, x)\<in>set [(Token_Plus, ?c)]. isBinaryOperator opr \<and> parsesOperand 2 ?A ?p x"
    using ops c by simp
  with C7_parse_standard_precedence [where A = ?A and p = ?p and K = 2 and a = ?b
      and oas = "[(Token_Plus, ?c)]", THEN conjunct1] b
  obtain S where S:
    "\<forall>T'. standard T' \<and> firstOperand T' = ?b \<and> operatorOperands T' = [(Token_Plus, ?c)] \<longrightarrow>
       T' = S"
    "\<forall>n rest. 2 + 2 * length [(Token_Plus, ?c)] + 4 \<le> n \<and>
       getBinOpPrecedence (?p\<lparr>Lexer := rest\<rparr>) < 1 \<and>
       followsOperand (getTok (?p\<lparr>Lexer := rest\<rparr>)) \<longrightarrow>
       parseExpression n ?A (?p\<lparr>Lexer := fst ?b @ operatorOperandTokens [(Token_Plus, ?c)] @
         rest\<rparr>) = Ok (?p\<lparr>Lexer := rest\<rparr>) (build ?A S)"
    by blast
  have "standard (Node Token_Plus (Leaf ?b) (Leaf ?c))"
    using ops prec by simp
  with S(1) have "S = Node Token_Plus (Leaf ?b) (Leaf ?c)"
    by fastforce
  with S(2) have "parsesExpression 8 ?A ?p ?sum"
    unfolding parsesExpression_def by (simp add: nodeASTLib_def del: parseExpression.simps)
  with C7_parse_standard_precedence [where A = ?A and p = ?p and K = 8 and a = ?sum,
      THEN conjunct2, THEN conjunct2, THEN conjunct2, THEN conjunct1]
  have "parsesOperand 10 ?A ?p ?paren"
    by simp
  moreover from neg have "parsesOperand 10 ?A ?p ?neg"
    by (rule parsesOperand_mono) simp
  moreover from one have "parsesOperand 10 ?A ?p ?one"
    by (rule parsesOperand_mono) simp
  ultimately have o: "parsesOperand 10 ?A ?p ?paren" "parsesOperand 10 ?A ?p ?neg"
    "parsesOperand 10 ?A ?p ?one"
    by simp_all
  let ?oas = "[(Token_Star, ?paren), (Token_Minus, ?one)]"
  have "\<forall>(opr, x)\<in>set ?oas. isBinaryOperator opr \<and> parsesOperand 10 ?A ?p x"
    using ops o by simp
  with C7_parse_standard_precedence [where A = ?A and p = ?p and K = 10 and a = ?neg
      and oas = ?oas, THEN conjunct1] o(2)
  obtain T where T:
    "\<forall>T'. standard T' \<and> firstOperand T' = ?neg \<and> operatorOperands T' = ?oas \<longrightarrow> T' = T"
    "\<forall>n rest. 10 + 2 * length ?oas + 4 \<le> n \<and>
       getBinOpPrecedence (?p\<lparr>Lexer := rest\<rparr>) < 1 \<and>
       followsOperand (getTok (?p\<lparr>Lexer := rest\<rparr>)) \<longrightarrow>
       parseExpression n ?A (?p\<lparr>Lexer := fst ?neg @ operatorOperandTokens ?oas @ rest\<rparr>) =
         Ok (?p\<lparr>Lexer := rest\<rparr>) (build ?A T)"
    by blast
  have "standard (Node Token_Minus (Node Token_Star (Leaf ?neg) (Leaf ?paren)) (Leaf ?one))"
    using ops prec by simp
  with T(1) have "T = Node Token_Minus (Node Token_Star (Leaf ?neg) (Leaf ?paren)) (Leaf ?one)"
    by fastforce
  moreover have "getBinOpPrecedence (?p\<lparr>Lexer := [Token_Semicolon]\<rparr>) < 1"
    and "followsOperand (getTok (?p\<lparr>Lexer := [Token_Semicolon]\<rparr>))"
    by (simp_all add: getBinOpPrecedence_def getTok_def followsOperand_def)
  ultimately have "parseExpression 20 ?A
      (?p\<lparr>Lexer := fst ?neg @ operatorOperandTokens ?oas @ [Token_Semicolon]\<rparr>) =
      Ok (?p\<lparr>Lexer := [Token_Semicolon]\<rparr>)
         (build ?A (Node Token_Minus (Node Token_Star (Leaf ?neg) (Leaf ?paren)) (Leaf ?one)))"
    using T(2) by (simp del: parseExpression.simps)
  then have r: "parseExpression 20 nodeASTLib
       (CMMParser_init
          [Token_Minus, Token_Identifier ''a'', Token_Star, Token_LParen,
           Token_Identifier ''b'', Token_Plus, Token_Identifier ''c'', Token_RParen,
           Token_Minus, Token_Integer 1, Token_Semicolon]) =
       Ok (CMMParser_init [Token_Semicolon])
          (BinaryOperatorAST Minus
             (BinaryOperatorAST Multiply
                (UnaryOperatorAST UnaryMinus (IdentifierAST ''a''))
                (BinaryOperatorAST Add (IdentifierAST ''b'') (IdentifierAST ''c'')))
             (IntAST 1))"
    by (simp add: CMMParser_init_def nodeASTLib_def del: parseExpression.simps)
  have e1: "parseExpression 20 nodeASTLib (CMMParser_init onePlusTwoTimesThree) =
       Ok (CMMParser_init [])
          (BinaryOperatorAST Add (IntAST 1) (BinaryOperatorAST Multiply (IntAST 2) (IntAST 3)))"
    using ex1 by (simp add: nodeASTLib_def del: parseExpression.simps)
  have e2: "parseExpression 20 nodeASTLib (CMMParser_init twoTimesThreePlusOne) =
       Ok (CMMParser_init [])
          (BinaryOperatorAST Add (BinaryOperatorAST Multiply (IntAST 2) (IntAST 3)) (IntAST 1))"
    using ex2 by (simp add: nodeASTLib_def del: parseExpression.simps)
  from o ops r e1 e2 show ?thesis
    by (simp del: parseExpression.simps)
qed


end
